theory Spec2Isabelle
  imports Complex_Main "HOL-Library.Multiset"
begin

section \<open>JavaScript strings\<close>

text \<open>
  The chain of \<^verbatim>\<open>movie-butler-chain.ts\<close> works on JavaScript strings. A string is
  modelled as a list of code units in the range 0..255 (\<^typ>\<open>string\<close>); on that range
  \<^verbatim>\<open>toLowerCase\<close> maps A..Z and the Latin-1 capitals, \<^verbatim>\<open>trim\<close> and the class
  \<^verbatim>\<open>\s\<close> strip the white space and line terminators 9..13, 32 and 160, and
  \<^verbatim>\<open>\w\<close> is the ASCII letters, the digits and the underscore.
\<close>

definition code :: "char \<Rightarrow> nat" where
  "code c = of_char c"

definition isDigit :: "char \<Rightarrow> bool" where
  "isDigit c = (48 \<le> code c \<and> code c \<le> 57)"

definition isSpace :: "char \<Rightarrow> bool" where
  "isSpace c = (code c \<in> {9, 10, 11, 12, 13, 32, 160})"

definition isWordChar :: "char \<Rightarrow> bool" where
  "isWordChar c = ((48 \<le> code c \<and> code c \<le> 57) \<or> (65 \<le> code c \<and> code c \<le> 90)
      \<or> code c = 95 \<or> (97 \<le> code c \<and> code c \<le> 122))"

definition toLowerChar :: "char \<Rightarrow> char" where
  "toLowerChar c =
     (if (65 \<le> code c \<and> code c \<le> 90) \<or> (192 \<le> code c \<and> code c \<le> 222 \<and> code c \<noteq> 215)
      then char_of (code c + 32) else c)"

definition toLowerCase :: "string \<Rightarrow> string" where
  "toLowerCase s = map toLowerChar s"

definition trim :: "string \<Rightarrow> string" where
  "trim s = rev (dropWhile isSpace (rev (dropWhile isSpace s)))"

primrec startsWith :: "string \<Rightarrow> string \<Rightarrow> bool" where
  "startsWith s [] = True"
| "startsWith s (p # ps) = (case s of [] \<Rightarrow> False | c # cs \<Rightarrow> c = p \<and> startsWith cs ps)"

primrec includesStr :: "string \<Rightarrow> string \<Rightarrow> bool" where
  "includesStr [] p = (p = [])"
| "includesStr (c # cs) p = (startsWith (c # cs) p \<or> includesStr cs p)"

text \<open>\<^verbatim>\<open>xs.slice(-n)\<close>: the last \<open>n\<close> elements, all of them when there are fewer.\<close>

definition sliceLast :: "nat \<Rightarrow> 'a list \<Rightarrow> 'a list" where
  "sliceLast n xs = drop (length xs - n) xs"

text \<open>\<^verbatim>\<open>s.lastIndexOf(c)\<close>: the index of the last occurrence, \<open>-1\<close> when there is none.\<close>

primrec lastIndexFrom :: "char \<Rightarrow> string \<Rightarrow> nat \<Rightarrow> int \<Rightarrow> int" where
  "lastIndexFrom c [] i acc = acc"
| "lastIndexFrom c (x # xs) i acc = lastIndexFrom c xs (Suc i) (if x = c then int i else acc)"

definition lastIndexOf :: "string \<Rightarrow> char \<Rightarrow> int" where
  "lastIndexOf s c = lastIndexFrom c s 0 (-1)"

primrec join :: "string \<Rightarrow> string list \<Rightarrow> string" where
  "join sep [] = []"
| "join sep (x # xs) = (if xs = [] then x else x @ sep @ join sep xs)"

section \<open>Regular expressions\<close>

text \<open>
  The patterns of the source are regular expression literals. They are embedded as
  syntax trees and run by a matcher that follows the backtracking order of the
  JavaScript matcher. The subject is annotated once: every code unit comes with its
  two ASCII case variants and its kind, so that a class test is a comparison.
\<close>

datatype charKind = KLower | KUpper | KDigit | KUnderscore | KSpace | KLineEnd | KOther

definition kindOf :: "char \<Rightarrow> charKind" where
  "kindOf c =
     (if 97 \<le> code c \<and> code c \<le> 122 then KLower
      else if 65 \<le> code c \<and> code c \<le> 90 then KUpper
      else if 48 \<le> code c \<and> code c \<le> 57 then KDigit
      else if code c = 95 then KUnderscore
      else if code c = 10 \<or> code c = 13 then KLineEnd
      else if code c \<in> {9, 11, 12, 32, 160} then KSpace
      else KOther)"

definition toUpperAscii :: "char \<Rightarrow> char" where
  "toUpperAscii c = (if 97 \<le> code c \<and> code c \<le> 122 then char_of (code c - 32) else c)"

definition toLowerAscii :: "char \<Rightarrow> char" where
  "toLowerAscii c = (if 65 \<le> code c \<and> code c \<le> 90 then char_of (code c + 32) else c)"

type_synonym cunit = "char \<times> char \<times> char \<times> charKind"

definition annotate :: "char \<Rightarrow> cunit" where
  "annotate c = (c, toUpperAscii c, toLowerAscii c, kindOf c)"

text \<open>
  The members of a character class: a literal, \<^verbatim>\<open>a-z\<close>, \<^verbatim>\<open>A-Z\<close>, \<^verbatim>\<open>\d\<close> (also
  \<^verbatim>\<open>0-9\<close>), \<^verbatim>\<open>\s\<close> and \<^verbatim>\<open>\w\<close>. Under the flag \<^verbatim>\<open>i\<close> (\<open>ci\<close>) a code unit also
  matches when its other ASCII case does; a code unit above 127 never folds to an
  ASCII one.
\<close>

datatype cclass = Ch char | Lower | Upper | Dig | Spc | Wrd

fun in_class :: "bool \<Rightarrow> cclass \<Rightarrow> cunit \<Rightarrow> bool" where
  "in_class ci (Ch d) (c, up, lo, k) = (c = d \<or> (ci \<and> (up = d \<or> lo = d)))"
| "in_class ci Lower (c, up, lo, k) = (k = KLower \<or> (ci \<and> k = KUpper))"
| "in_class ci Upper (c, up, lo, k) = (k = KUpper \<or> (ci \<and> k = KLower))"
| "in_class ci Dig (c, up, lo, k) = (k = KDigit)"
| "in_class ci Spc (c, up, lo, k) = (k = KSpace \<or> k = KLineEnd)"
| "in_class ci Wrd (c, up, lo, k) = (k = KLower \<or> k = KUpper \<or> k = KDigit \<or> k = KUnderscore)"

definition in_set :: "bool \<Rightarrow> cclass list \<Rightarrow> cunit \<Rightarrow> bool" where
  "in_set ci cs u = list_ex (\<lambda>k. in_class ci k u) cs"

definition isWordUnit :: "cunit \<Rightarrow> bool" where
  "isWordUnit u = in_class False Wrd u"

definition isLineEnd :: "cunit \<Rightarrow> bool" where
  "isLineEnd u = (snd (snd (snd u)) = KLineEnd)"

datatype rx =
    REps
  | RSet "cclass list"
  | RNotSet "cclass list"
  | RAny
  | RSeq rx rx
  | RAlt rx rx
  | RStar rx
  | RLazyStar rx
  | RBol
  | REol
  | RWordB
  | RNotAhead rx

text \<open>
  A position in the subject: its index, whether the code unit before it is a word
  character, and the annotated rest of the subject.
\<close>

type_synonym pos = "nat \<times> bool \<times> cunit list"

primrec dedupSeen :: "nat list \<Rightarrow> pos list \<Rightarrow> pos list" where
  "dedupSeen seen [] = []"
| "dedupSeen seen (p # ps) =
     (if List.member seen (fst p) then dedupSeen seen ps else p # dedupSeen (fst p # seen) ps)"

text \<open>Each position once, at its first occurrence.\<close>

definition dedup :: "pos list \<Rightarrow> pos list" where
  "dedup ps = dedupSeen [] ps"

text \<open>
  \<open>ends ci n r p\<close> lists, in the order in which the backtracking matcher tries them,
  the positions at which a match of \<open>r\<close> that starts at \<open>p\<close> can end; \<open>n\<close> is the
  length of the subject. The patterns use no back reference, so the continuation of a
  match depends on the end position only, and the first position of the list that
  lets the rest of the pattern succeed is the one the matcher takes. An iteration of
  \<^verbatim>\<open>*\<close> that consumes nothing is rejected, as in JavaScript.
\<close>

function ends :: "bool \<Rightarrow> nat \<Rightarrow> rx \<Rightarrow> pos \<Rightarrow> pos list" where
  "ends ci n REps p = [p]"
| "ends ci n (RSet cs) p =
     (case snd (snd p) of
        [] \<Rightarrow> []
      | u # us \<Rightarrow> if in_set ci cs u then [(fst p + 1, isWordUnit u, us)] else [])"
| "ends ci n (RNotSet cs) p =
     (case snd (snd p) of
        [] \<Rightarrow> []
      | u # us \<Rightarrow> if in_set ci cs u then [] else [(fst p + 1, isWordUnit u, us)])"
| "ends ci n RAny p =
     (case snd (snd p) of
        [] \<Rightarrow> []
      | u # us \<Rightarrow> if isLineEnd u then [] else [(fst p + 1, isWordUnit u, us)])"
| "ends ci n (RSeq a b) p = dedup (concat (map (\<lambda>q. ends ci n b q) (ends ci n a p)))"
| "ends ci n (RAlt a b) p = dedup (ends ci n a p @ ends ci n b p)"
| "ends ci n (RStar a) p =
     dedup (concat (map (\<lambda>q. ends ci n (RStar a) q)
              (filter (\<lambda>q. fst p < fst q \<and> fst q \<le> n) (ends ci n a p))) @ [p])"
| "ends ci n (RLazyStar a) p =
     dedup (p # concat (map (\<lambda>q. ends ci n (RLazyStar a) q)
              (filter (\<lambda>q. fst p < fst q \<and> fst q \<le> n) (ends ci n a p))))"
| "ends ci n RBol p = (if fst p = 0 then [p] else [])"
| "ends ci n REol p = (if snd (snd p) = [] then [p] else [])"
| "ends ci n RWordB p =
     (if fst (snd p) = (case snd (snd p) of [] \<Rightarrow> False | u # us \<Rightarrow> isWordUnit u) then [] else [p])"
| "ends ci n (RNotAhead a) p = (if ends ci n a p = [] then [p] else [])"
  by pat_completeness auto
termination
  by (relation "inv_image (less_than <*lex*> less_than) (\<lambda>(ci, n, r, p). (size r, n - fst p))") auto

text \<open>Shorthands: a literal text, a sequence, an alternative, \<^verbatim>\<open>+\<close>, \<^verbatim>\<open>+?\<close> and \<^verbatim>\<open>?\<close>.\<close>

fun rlit :: "string \<Rightarrow> rx" where
  "rlit [] = REps"
| "rlit [c] = RSet [Ch c]"
| "rlit (c # cs) = RSeq (RSet [Ch c]) (rlit cs)"

fun rseq :: "rx list \<Rightarrow> rx" where
  "rseq [] = REps"
| "rseq [r] = r"
| "rseq (r # rs) = RSeq r (rseq rs)"

fun ralt :: "rx list \<Rightarrow> rx" where
  "ralt [] = RNotAhead REps"
| "ralt [r] = r"
| "ralt (r # rs) = RAlt r (ralt rs)"

definition ralts :: "string list \<Rightarrow> rx" where
  "ralts ws = ralt (map rlit ws)"

definition rplus :: "rx \<Rightarrow> rx" where
  "rplus r = RSeq r (RStar r)"

definition rlazyplus :: "rx \<Rightarrow> rx" where
  "rlazyplus r = RSeq r (RLazyStar r)"

definition ropt :: "rx \<Rightarrow> rx" where
  "ropt r = RAlt r REps"

text \<open>
  \<^verbatim>\<open>regex.exec(s)\<close> without the flag \<^verbatim>\<open>g\<close>: the leftmost start at which the pattern
  matches, with the end the backtracking order reaches first. \<open>scan\<close> walks the
  start positions from left to right.
\<close>

fun scan :: "bool \<Rightarrow> nat \<Rightarrow> rx \<Rightarrow> nat \<Rightarrow> bool \<Rightarrow> cunit list \<Rightarrow> (nat \<times> nat) option" where
  "scan ci n r i w [] = (case ends ci n r (i, w, []) of [] \<Rightarrow> None | q # qs \<Rightarrow> Some (i, fst q))"
| "scan ci n r i w (u # us) =
     (case ends ci n r (i, w, u # us) of
        [] \<Rightarrow> scan ci n r (i + 1) (isWordUnit u) us
      | q # qs \<Rightarrow> Some (i, fst q))"

definition rx_exec :: "bool \<Rightarrow> rx \<Rightarrow> string \<Rightarrow> (nat \<times> nat) option" where
  "rx_exec ci r s = scan ci (length s) r 0 False (map annotate s)"

definition rx_test :: "bool \<Rightarrow> rx \<Rightarrow> string \<Rightarrow> bool" where
  "rx_test ci r s = (rx_exec ci r s \<noteq> None)"

text \<open>\<^verbatim>\<open>s.match(regex)\<close> without the flag \<^verbatim>\<open>g\<close>, as the matched text.\<close>

definition rx_match :: "bool \<Rightarrow> rx \<Rightarrow> string \<Rightarrow> string option" where
  "rx_match ci r s =
     (case rx_exec ci r s of None \<Rightarrow> None | Some (i, j) \<Rightarrow> Some (take (j - i) (drop i s)))"

text \<open>\<^verbatim>\<open>s.replace(regex, '')\<close> without the flag \<^verbatim>\<open>g\<close>: the first match is removed.\<close>

definition rx_remove :: "bool \<Rightarrow> rx \<Rightarrow> string \<Rightarrow> string" where
  "rx_remove ci r s =
     (case rx_exec ci r s of None \<Rightarrow> s | Some (i, j) \<Rightarrow> take i s @ drop j s)"

text \<open>
  With the flag \<^verbatim>\<open>g\<close>: all matches from left to right, each search starting where
  the match before ended (\<open>k\<close>).
\<close>

fun scanAll :: "bool \<Rightarrow> nat \<Rightarrow> rx \<Rightarrow> nat \<Rightarrow> bool \<Rightarrow> cunit list \<Rightarrow> nat \<Rightarrow> (nat \<times> nat) list" where
  "scanAll ci n r i w [] k =
     (if i < k then []
      else (case ends ci n r (i, w, []) of [] \<Rightarrow> [] | q # qs \<Rightarrow> [(i, fst q)]))"
| "scanAll ci n r i w (u # us) k =
     (if i < k then scanAll ci n r (i + 1) (isWordUnit u) us k
      else (case ends ci n r (i, w, u # us) of
              [] \<Rightarrow> scanAll ci n r (i + 1) (isWordUnit u) us k
            | q # qs \<Rightarrow> (i, fst q) # scanAll ci n r (i + 1) (isWordUnit u) us (fst q)))"

definition matches_all :: "bool \<Rightarrow> rx \<Rightarrow> string \<Rightarrow> (nat \<times> nat) list" where
  "matches_all ci r s = scanAll ci (length s) r 0 False (map annotate s) 0"

definition rx_match_all :: "bool \<Rightarrow> rx \<Rightarrow> string \<Rightarrow> string list" where
  "rx_match_all ci r s = map (\<lambda>(i, j). take (j - i) (drop i s)) (matches_all ci r s)"

fun remove_spans :: "string \<Rightarrow> nat \<Rightarrow> (nat \<times> nat) list \<Rightarrow> string" where
  "remove_spans s k [] = drop k s"
| "remove_spans s k ((i, j) # ms) = take (i - k) (drop k s) @ remove_spans s j ms"

definition rx_remove_all :: "bool \<Rightarrow> rx \<Rightarrow> string \<Rightarrow> string" where
  "rx_remove_all ci r s = remove_spans s 0 (matches_all ci r s)"

section \<open>Conversation memory\<close>

datatype role = User | Assistant

record message =
  role :: role
  content :: string
  timestamp :: nat

record discussedMovie =
  d_title :: string
  d_genre :: "string option"
  d_rating :: "string option"

record userPreferences =
  genres :: "string list"
  lastContext :: string

record ConversationMemory =
  messages :: "message list"
  discussedMovies :: "discussedMovie list"
  userPrefs :: userPreferences
  totalTokens :: nat
  turnCount :: nat

text \<open>
  The normalized movie record that \<^verbatim>\<open>normalizeMovieData\<close> builds. The source types it
  \<^verbatim>\<open>any\<close> and guards the rating and the genre with \<^verbatim>\<open>||\<close> where it reads them, so
  these two fields may be missing (\<open>None\<close>).
\<close>

record movie =
  m_id :: string
  title :: string
  year :: string
  imdbID :: string
  poster :: string
  imdbRating :: "string option"
  imdbVotes :: string
  plot :: string
  director :: string
  actors :: string
  genre :: "string option"
  created_at :: string

text \<open>A JavaScript value used as a condition: a missing or empty string is falsy.\<close>

definition orElse :: "string option \<Rightarrow> string \<Rightarrow> string" where
  "orElse v d = (case v of None \<Rightarrow> d | Some s \<Rightarrow> if s = [] then d else s)"

text \<open>
  \<^verbatim>\<open>saveUserMessage\<close>, on the in-process store (a map from conversation ids). The clock
  \<^verbatim>\<open>Date.now()\<close> is the argument \<open>now\<close>. An unknown id leaves the store as it is.
\<close>

definition saveUserMessage ::
  "nat \<Rightarrow> string \<Rightarrow> string \<Rightarrow> (string \<rightharpoonup> ConversationMemory) \<Rightarrow> (string \<rightharpoonup> ConversationMemory)" where
  "saveUserMessage now conversationId msg store =
     (case store conversationId of
        None \<Rightarrow> store
      | Some conversation \<Rightarrow>
          (let pushed = messages conversation @ [\<lparr>role = User, content = msg, timestamp = now\<rparr>];
               kept = (if length pushed > 10 then sliceLast 10 pushed else pushed)
           in store(conversationId \<mapsto>
                conversation\<lparr>messages := kept, turnCount := turnCount conversation + 1\<rparr>)))"

text \<open>
  The genre \<^verbatim>\<open>saveAssistantMessage\<close> takes from a movie: the first of a comma separated
  list, trimmed; \<open>None\<close> stands for a falsy value.
\<close>

definition firstGenre :: "movie \<Rightarrow> string option" where
  "firstGenre m =
     (case genre m of
        None \<Rightarrow> None
      | Some g \<Rightarrow>
          if g = [] then None
          else if includesStr g '','' then
            (let h = trim (takeWhile (\<lambda>c. c \<noteq> CHR '','') g) in if h = [] then None else Some h)
          else Some g)"

text \<open>
  The in-memory part of \<^verbatim>\<open>saveAssistantMessage\<close>: the message is pushed, and a movie,
  when one is given, is added to the discussed list and to the preferences.
\<close>

definition addMovie :: "movie \<Rightarrow> ConversationMemory \<Rightarrow> ConversationMemory" where
  "addMovie m conversation =
     (let g = firstGenre m;
          entry = \<lparr>d_title = title m, d_genre = Some (orElse g ''Unknown''),
                   d_rating = Some (orElse (imdbRating m) ''N/A'')\<rparr>;
          pushed = discussedMovies conversation @ [entry];
          kept = (if length pushed > 5 then sliceLast 5 pushed else pushed);
          prefs = userPrefs conversation;
          gs = (case g of
                  None \<Rightarrow> genres prefs
                | Some h \<Rightarrow>
                    if h \<noteq> ''Unknown'' \<and> h \<notin> set (genres prefs)
                    then (let gs' = genres prefs @ [h]
                          in if length gs' > 3 then sliceLast 3 gs' else gs')
                    else genres prefs)
      in conversation\<lparr>discussedMovies := kept, userPrefs := prefs\<lparr>genres := gs\<rparr>\<rparr>)"

definition pushAssistant :: "nat \<Rightarrow> string \<Rightarrow> movie option \<Rightarrow> ConversationMemory \<Rightarrow> ConversationMemory" where
  "pushAssistant now msg movieData conversation =
     (let c1 = conversation\<lparr>messages :=
                 messages conversation @ [\<lparr>role = Assistant, content = msg, timestamp = now\<rparr>]\<rparr>
      in case movieData of None \<Rightarrow> c1 | Some m \<Rightarrow> addMovie m c1)"


section \<open>The chain's state and its environment\<close>

text \<open>
  The hosted store holds three tables. A movie row belongs to one user; a
  recommendation row points to a movie row; a conversation row mirrors the memory of
  one conversation. \<open>dbCalls\<close> records every request the chain sends to the store.
\<close>

record movieRow =
  m_row :: movie
  m_user :: string

record recommendationRow =
  r_id :: string
  r_movie_id :: string
  r_recommendation :: string
  r_worth_watching :: bool
  r_created_at :: string

record conversationRow =
  c_user :: "string option"
  c_memory :: ConversationMemory

datatype dbOp =
    SelectConversation | UpsertConversation
  | SelectMovies | InsertMovie
  | SelectRecommendations | InsertRecommendation

record chain =
  conversationStore :: "string \<rightharpoonup> ConversationMemory"
  moviesTable :: "movieRow list"
  recommendationsTable :: "recommendationRow list"
  conversationsTable :: "string \<rightharpoonup> conversationRow"
  dbCalls :: "dbOp list"

text \<open>
  What the chain cannot compute is an input: the clock, the identifiers
  (\<^verbatim>\<open>crypto.randomUUID\<close> and the store's row ids), the draws of \<^verbatim>\<open>Math.random\<close>, whether
  the \<open>n\<close>-th request to the store fails, the answers of the three language-model
  chains and the answer of the external catalog. A language-model call either throws
  or returns a text (possibly missing) and a token count.
\<close>

datatype llmResult = LlmError | LlmText "string option" nat

record omdbMovie =
  o_Title :: string
  o_Year :: string
  o_imdbID :: string
  o_Poster :: string
  o_imdbRating :: string
  o_imdbVotes :: string
  o_Plot :: string
  o_Director :: string
  o_Actors :: string
  o_Genre :: string

record env =
  clock :: nat
  isoTime :: string
  newId :: "nat \<Rightarrow> string"
  random :: "nat \<Rightarrow> rat"
  dbFails :: "nat \<Rightarrow> bool"
  titleModel :: llmResult
  recommendationModel :: llmResult
  conversationModel :: llmResult
  catalog :: "string list \<Rightarrow> omdbMovie option"

definition dbCall :: "dbOp \<Rightarrow> chain \<Rightarrow> chain" where
  "dbCall op st = st\<lparr>dbCalls := dbCalls st @ [op]\<rparr>"

definition dbFailed :: "env \<Rightarrow> chain \<Rightarrow> bool" where
  "dbFailed e st = dbFails e (length (dbCalls st))"

text \<open>\<^verbatim>\<open>userId || null\<close>, and a user id used as a condition: the empty string is falsy.\<close>

definition truthy :: "string option \<Rightarrow> string option" where
  "truthy u = (case u of None \<Rightarrow> None | Some s \<Rightarrow> if s = [] then None else Some s)"

text \<open>\<^verbatim>\<open>saveConversationToDatabase\<close>: one upsert; a failure is logged and nothing more.\<close>

definition saveConversationToDatabase ::
  "env \<Rightarrow> string \<Rightarrow> ConversationMemory \<Rightarrow> string option \<Rightarrow> chain \<Rightarrow> chain" where
  "saveConversationToDatabase e conversationId conversation userId st =
     (let st1 = dbCall UpsertConversation st
      in if dbFailed e st then st1
         else st1\<lparr>conversationsTable := (conversationsTable st1)
                (conversationId \<mapsto> \<lparr>c_user = truthy userId, c_memory = conversation\<rparr>)\<rparr>)"

definition saveAssistantMessage ::
  "env \<Rightarrow> string \<Rightarrow> string \<Rightarrow> movie option \<Rightarrow> string option \<Rightarrow> chain \<Rightarrow> chain" where
  "saveAssistantMessage e conversationId msg movieData userId st =
     (case conversationStore st conversationId of
        None \<Rightarrow> st
      | Some conversation \<Rightarrow>
          (let c' = pushAssistant (clock e) msg movieData conversation;
               st1 = st\<lparr>conversationStore := (conversationStore st)(conversationId \<mapsto> c')\<rparr>
           in saveConversationToDatabase e conversationId c' userId st1))"

text \<open>The memory \<^verbatim>\<open>loadConversation\<close> creates for an unknown conversation id.\<close>

definition newConversation :: ConversationMemory where
  "newConversation =
     \<lparr>messages = [], discussedMovies = [], userPrefs = \<lparr>genres = [], lastContext = []\<rparr>,
      totalTokens = 0, turnCount = 0\<rparr>"


section \<open>The query classifier\<close>

text \<open>
  A pattern is a syntax tree with its flag \<^verbatim>\<open>i\<close>. The tables below are the regular
  expression literals of \<^verbatim>\<open>detectGeneralConversation\<close>, in the order of the source.
\<close>

type_synonym regex = "bool \<times> rx"

definition test :: "regex \<Rightarrow> string \<Rightarrow> bool" where
  "test p s = rx_test (fst p) (snd p) s"

definition apos :: string where
  "apos = [CHR 0x27]"

definition dquote :: string where
  "dquote = [CHR 0x22]"

definition letter :: rx where
  "letter = RSet [Lower, Upper]"

text \<open>The class \<^verbatim>\<open>[a-zA-Z\s:'-]\<close>.\<close>

definition titleChar :: rx where
  "titleChar = RSet [Lower, Upper, Spc, Ch CHR '':'', Ch (CHR 0x27), Ch CHR ''-'']"

definition digit :: rx where
  "digit = RSet [Dig]"

definition sp :: rx where
  "sp = RSet [Spc]"

text \<open>\<^verbatim>\<open>\s+\<close> and \<^verbatim>\<open>\s*\<close>.\<close>

definition sps :: rx where
  "sps = rplus sp"

definition sps0 :: rx where
  "sps0 = RStar sp"

text \<open>Words separated by \<^verbatim>\<open>\s+\<close>, as in \<^verbatim>\<open>slow\s+burn\<close>.\<close>

fun rwords :: "string list \<Rightarrow> rx" where
  "rwords [] = REps"
| "rwords [w] = rlit w"
| "rwords (w # ws) = RSeq (rlit w) (RSeq sps (rwords ws))"

text \<open>\<^verbatim>\<open>(19\d{2}|20\d{2})\<close>.\<close>

definition year19or20 :: rx where
  "year19or20 = RAlt (rseq [rlit ''19'', digit, digit]) (rseq [rlit ''20'', digit, digit])"

definition movieOrFilm :: rx where
  "movieOrFilm = ralts [''movie'', ''film'']"

definition suggestOrRecommend :: rx where
  "suggestOrRecommend = ralts [''suggest'', ''recommend'']"

definition aAnSome :: rx where
  "aAnSome = ralts [''a'', ''an'', ''some'']"

definition countries :: rx where
  "countries = ralts [''korean'', ''japanese'', ''french'', ''italian'', ''spanish'', ''chinese'']"

text \<open>
  \<^verbatim>\<open>(good|great|best|slow\s+burn|action|thriller|drama|comedy|horror|sci-fi|romance|mystery)\<close>
  and the two other genre lists of the tables.
\<close>

definition genreWordsA :: rx where
  "genreWordsA = ralt [rlit ''good'', rlit ''great'', rlit ''best'', rwords [''slow'', ''burn''],
     rlit ''action'', rlit ''thriller'', rlit ''drama'', rlit ''comedy'', rlit ''horror'',
     rlit ''sci-fi'', rlit ''romance'', rlit ''mystery'']"

definition styleWords :: rx where
  "styleWords = ralt [rwords [''slow'', ''burn''], rlit ''underrated'', rwords [''hidden'', ''gem''],
     rlit ''classic'', rlit ''recent'', rlit ''new'', rlit ''old'']"

definition genreWordsB :: rx where
  "genreWordsB = ralt [rwords [''slow'', ''burn''], rlit ''action'', rlit ''thriller'', rlit ''drama'',
     rlit ''comedy'', rlit ''horror'', rlit ''sci-fi'', rlit ''romance'', rlit ''mystery'']"

definition genreRequest :: regex where
  "genreRequest = (True, rseq [RBol, suggestOrRecommend, sps, ropt aAnSome, sps0, genreWordsA, sps0, movieOrFilm])"

definition styleRequest :: regex where
  "styleRequest = (True, rseq [RBol, suggestOrRecommend, sps, ropt aAnSome, sps0, styleWords, sps0, ropt movieOrFilm])"

definition anyGoodRequest :: regex where
  "anyGoodRequest = (True, rseq [RBol,
     ralt [rwords [''any'', ''good''], rwords [''what'', ''are'', ''some'', ''good''],
           rwords [''can'', ''you'', ''suggest''], rwords [''what'', ''about'', ''some'']],
     sps0, ropt genreWordsB, sps0, ralts [''movies'', ''films'']])"

definition generalPatterns :: "regex list" where
  "generalPatterns =
    [(True, rseq [RBol, ralts [''hi'', ''hello'', ''hey'', ''thanks'', ''thank you'', ''ok'', ''okay'',
                              ''cool'', ''nice'', ''great'', ''awesome''], REol]),
     (True, rseq [RBol, ralts [''what do you think'', ''any other'', ''anything else'', ''what about'', ''how about'']]),
     (True, rseq [RBol, ralts [''tell me more'', ''more info'', ''details'', ''explain'']]),
     (True, rseq [RBol, ralts [''recommend'', ''suggest'', ''any recommendations'', ''what should i watch'']]),
     (True, rseq [RBol, ralts [''give me'', ''show me'', ''find me''], sps, ropt (ralts [''some'', ''any'']), sps0,
                  ralts [''recommendations'', ''suggestions'']]),
     genreRequest,
     styleRequest,
     anyGoodRequest]"

definition comparisonPatterns :: "regex list" where
  "comparisonPatterns =
    [(True, rseq [RBol, ralts [''which one is better'', ''which is better'', ''what'' @ apos @ ''s better'', ''whats better'']]),
     (True, rseq [RBol, ralts [''yes'', ''yeah'', ''yep'', ''sure'', ''no'', ''nope'', ''not really'', ''maybe''], REol]),
     (True, rseq [RBol, ralts [''so this is better'', ''is this better'', ''better than'']]),
     (True, rseq [RBol, ralts [''which one'', ''which movie'', ''what about'']]),
     (True, rseq [RBol, ralts [''compare'', ''comparison'', ''vs'', ''versus'']]),
     (True, rseq [RBol, ralts [''what do you think about'', ''your opinion'', ''do you prefer'']]),
     (True, rseq [RBol, ralts [''recommend'', ''suggest''], sps, ralts [''similar'', ''something similar'', ''more like'']]),
     (True, rseq [RBol, ralts [''can you recommend'', ''could you recommend'', ''please recommend''], sps,
                  ralts [''similar'', ''something'']]),
     (True, rseq [RBol,
        rplus (RSet [Lower, Upper, Spc, Ch (CHR 0x27), Ch (CHR 0x22), Ch CHR ''-'']),
        sps, rlit ''or'', sps,
        rplus (RSet [Lower, Upper, Spc, Ch (CHR 0x27), Ch (CHR 0x22), Ch CHR ''-'']),
        ropt (rlit ''?''), REol]),
     (True, rseq [RBol, ralts [''that one'', ''this one'', ''the first one'', ''the second one'', ''that movie'', ''this movie'']]),
     (True, rseq [RBol, ralts [''more about'', ''tell me more about'', ''what else about'']]),
     (True, rseq [RWordB, RAlt (rwords [''forrest'', ''gump'']) (rwords [''the'', ''pianist'']), sps, rlit ''or'', sps, RWordB]),
     (True, rseq [rwords [''which'', ''is'', ''better''], RStar RAny,
                  RAlt (rwords [''forrest'', ''gump'']) (rwords [''the'', ''pianist''])])]"

definition recommendationPatterns :: "regex list" where
  "recommendationPatterns =
    [(True, rseq [RBol, ralts [''recommend'', ''suggest'', ''any recommendations'', ''what should i watch''],
                  RNotAhead (RAlt (RSeq sps (rlit ''similar'')) (RSeq sps (rlit ''like'')))]),
     (True, rseq [RBol, ralts [''recommend something'', ''suggest something'', ''any good movies'',
                              ''something different'', ''better movie''], REol]),
     (True, rseq [RBol, ralts [''give me'', ''show me'', ''find me''], sps, ropt (ralts [''a'', ''some'', ''any'']), sps0,
                  ropt (ralts [''good'', ''better'', ''different'']), sps0, movieOrFilm]),
     (True, rseq [RBol, ralts [''can you recommend'', ''could you recommend'', ''please recommend''], sps0,
                  ralts [''similar'', ''something'', ''a movie'']]),
     (True, rseq [RBol, ralts [''recommend'', ''suggest''], sps, ralts [''similar'', ''something similar''], sps0,
                  ropt movieOrFilm]),
     genreRequest,
     styleRequest,
     anyGoodRequest,
     (True, rseq [RBol, RAlt (rwords [''what'', ''about'']) (rwords [''how'', ''about'']), sps, ropt aAnSome, sps0,
                  ropt (ralt [rlit ''good'', rwords [''slow'', ''burn''], rlit ''action'', rlit ''thriller'',
                              rlit ''drama'', rlit ''comedy'']),
                  sps0, movieOrFilm])]"

definition movieQueryPatterns :: "regex list" where
  "movieQueryPatterns =
    [(True, rseq [RBol, ralts [''how is'', ''how was'', ''how'' @ apos @ ''s'', ''hows''], sps, letter]),
     (True, rseq [RBol, ralts [''what about'', ''tell me about'', ''about''], sps, letter, rplus titleChar, REol]),
     (True, rseq [RBol, ralts [''give recommendation for'', ''review''], sps, letter]),
     (True, rseq [RBol, letter, rplus titleChar, REol]),
     (True, rseq [movieOrFilm, sps, letter]),
     (True, rseq [rplus letter, sps, movieOrFilm, REol])]"

definition movieContextPatterns :: "regex list" where
  "movieContextPatterns =
    [(True, rseq [RBol, ralts [''no'', ''nope'', ''not that'', ''different'', ''wrong'', ''another''], sps, letter]),
     (True, rseq [ralts [''recent'', ''latest'', ''newer'', ''new one'', ''newest''], sps, letter]),
     (True, rseq [ralts [''original'', ''first'', ''older'', ''classic''], sps, letter]),
     (True, ralts [''that movie'', ''that film'', ''this movie'', ''this film'']),
     (True, RAlt (RSeq (rlit ''for '') (rplus RAny)) (RSeq (rlit ''about '') (rplus RAny))),
     (True, rseq [countries, RStar RAny, movieOrFilm]),
     (True, rseq [movieOrFilm, RStar RAny, countries]),
     (False, rseq [rlit ''20'', digit, digit]),
     (True, rseq [rlit ''goosebumps'', RStar RAny, rlit ''movie'']),
     (True, rseq [rlit ''movie'', RStar RAny, rlit ''goosebumps'']),
     (True, rseq [ralts [''sequel'', ''its sequel'', ''part 2'', ''part ii'', ''part two''], sps, letter]),
     (True, rseq [RBol, RSet [Upper], rplus titleChar, sps, year19or20, REol]),
     (True, rseq [RBol, ralts [''it'' @ apos @ ''s'', ''its''], sps,
                  ralt [rwords [''part'', ''two''], rwords [''part'', ''2''], rwords [''part'', ''ii''], rlit ''sequel'']]),
     (True, rseq [ralt [rwords [''part'', ''two''], rwords [''part'', ''2''], rwords [''part'', ''ii'']], REol]),
     (True, RAlt (rwords [''glass'', ''onion'']) (rwords [''onion'', ''glass'']))]"

definition contextualResponsePattern :: regex where
  "contextualResponsePattern = (True, rseq [RBol, ralts [''yes'', ''yeah'', ''yep'', ''sure'', ''no'', ''nope''], REol])"

text \<open>\<^verbatim>\<open>/^[A-Z][a-z\s:'-]+(\s\d{4})?$/i\<close>.\<close>

definition movieTitlePattern :: regex where
  "movieTitlePattern = (True, rseq [RBol, RSet [Upper],
     rplus (RSet [Lower, Spc, Ch CHR '':'', Ch (CHR 0x27), Ch CHR ''-'']),
     ropt (rseq [sp, digit, digit, digit, digit]), REol])"

definition movieKeywords :: "string list" where
  "movieKeywords = [''movie'', ''film'', ''watch'', ''seen'', ''director'', ''actor'', ''actress'',
     ''rating'', ''imdb'', ''review'', ''plot'', ''genre'', ''cast'', ''trailer'']"

definition containsMovieKeywords :: "string \<Rightarrow> bool" where
  "containsMovieKeywords query = list_ex (\<lambda>keyword. includesStr (toLowerCase query) keyword) movieKeywords"

text \<open>
  \<^verbatim>\<open>detectGeneralConversation\<close>: \<open>True\<close> sends the query to the conversational reply,
  \<open>False\<close> to title resolution. The movie-query patterns are tried first and return
  at once.
\<close>

definition detectGeneralConversation :: "string \<Rightarrow> bool" where
  "detectGeneralConversation query =
     (let q = trim query;
          isMovieQuery = list_ex (\<lambda>pattern. test pattern q) movieQueryPatterns
      in if isMovieQuery then False
         else
          (let isGeneral = list_ex (\<lambda>pattern. test pattern q) generalPatterns;
               isComparison = list_ex (\<lambda>pattern. test pattern q) comparisonPatterns;
               isRecommendationRequest = list_ex (\<lambda>pattern. test pattern q) recommendationPatterns;
               isMovieContext = list_ex (\<lambda>pattern. test pattern q) movieContextPatterns;
               isShort = (length q < 50);
               hasMovieKeywords = containsMovieKeywords query;
               isContextualResponse = test contextualResponsePattern q;
               hasMovieTitlePattern = (test movieTitlePattern q \<and> length q > 3)
           in if isComparison then True
              else if isContextualResponse then True
              else if isRecommendationRequest \<and> \<not> isMovieContext then True
              else if (isMovieContext \<or> hasMovieTitlePattern) \<and> \<not> isComparison \<and> \<not> isContextualResponse then False
              else (isGeneral \<or> isComparison \<or> isContextualResponse
                    \<or> (isShort \<and> \<not> hasMovieKeywords \<and> \<not> hasMovieTitlePattern \<and> \<not> isMovieQuery))))"


section \<open>The title resolver\<close>

text \<open>\<^verbatim>\<open>getBaseTitle\<close>, the local function of \<^verbatim>\<open>handleContextualQueries\<close>.\<close>

definition getBaseTitle :: "string \<Rightarrow> string" where
  "getBaseTitle t =
     trim
       (rx_remove False (rseq [sps0, rplus digit, REol])
       (rx_remove True (rseq [sps0, rlit ''part'', sps, rplus digit])
       (rx_remove False (rseq [sps0, rlit ''-'', sps0, rplus RAny, REol])
       (rx_remove False (rseq [rlit '':'', sps0, rplus RAny, REol])
       (rx_remove False (rseq [sps0, rlit ''('', digit, digit, digit, digit, rlit '')'']) t)))))"

text \<open>\<^verbatim>\<open>extractBaseTitle\<close>, the method used by the anti-repetition check.\<close>

definition extractBaseTitle :: "string \<Rightarrow> string" where
  "extractBaseTitle t =
     trim
       (rx_remove True (rseq [sps, rlit ''starring'', sps, rplus RAny, REol])
       (rx_remove True (rseq [sps, rlit ''with'', sps, rplus RAny, REol])
       (rx_remove False (rseq [sps0, rlit ''-'', sps0, rplus RAny, REol])
       (rx_remove False (rseq [rlit '':'', sps0, rplus RAny, REol])
       (rx_remove False (rseq [sps0, rlit ''('', digit, digit, digit, digit, rlit '')''])
       (rx_remove False (rseq [sps0, digit, digit, digit, digit, REol]) t))))))"

text \<open>
  \<^verbatim>\<open>/([a-zA-Z][a-zA-Z\s:'-]+(?:\s+\d{4}|\s+1984|\s+returns|\s+rises|\s+begins))/i\<close>
\<close>

definition directMoviePattern :: regex where
  "directMoviePattern = (True, rseq [letter, rplus titleChar,
     ralt [rseq [sps, digit, digit, digit, digit], RSeq sps (rlit ''1984''), RSeq sps (rlit ''returns''),
           RSeq sps (rlit ''rises''), RSeq sps (rlit ''begins'')]])"

datatype contextKind =
    ctx_direct_reference | ctx_sequel | ctx_sequel_inquiry | ctx_specific_movie_mention
  | ctx_recommendation | ctx_clarification | ctx_recent | ctx_original | ctx_year_specific
  | ctx_country_specific | ctx_comparison

definition contextualPatterns :: "(string list \<times> contextKind) list" where
  "contextualPatterns =
    [([''that movie'', ''that film'', ''it'', ''this movie'', ''this film''], ctx_direct_reference),
     ([''sequel'', ''its sequel'', ''the sequel'', ''follow up'', ''next one'', ''part 2'', ''part ii'', ''part two'',
       ''second one'', ''second part'', ''it'' @ apos @ ''s part two'', ''part two''], ctx_sequel),
     ([''any sequel'', ''there any sequel'', ''are there sequel'', ''have sequel'', ''sequels exist''], ctx_sequel_inquiry),
     ([''glass onion'', ''onion glass''], ctx_specific_movie_mention),
     ([''recommendation'', ''recommend'', ''suggest'', ''similar'', ''like that'', ''different'', ''another'', ''else''],
      ctx_recommendation),
     ([''no'', ''not that'', ''wrong'', ''different'', ''korean'', ''korean movie'', ''korean version''], ctx_clarification),
     ([''recent'', ''latest'', ''newer'', ''new one'', ''newest''], ctx_recent),
     ([''original'', ''first'', ''older'', ''classic''], ctx_original),
     ([''2023'', ''2024'', ''2025'', ''1984''], ctx_year_specific),
     ([''korean'', ''japanese'', ''french'', ''italian'', ''spanish'', ''chinese''], ctx_country_specific),
     ([''better'', ''which is better'', ''compare'', ''vs'', ''versus''], ctx_comparison)]"

text \<open>The static franchise map, in the order in which \<^verbatim>\<open>Object.entries\<close> walks it.\<close>

definition sequelMap :: "(string \<times> string list) list" where
  "sequelMap =
    [(''wonder woman'', [''Wonder Woman 1984'', ''Wonder Woman: 1984'']),
     (''sherlock holmes'', [''Sherlock Holmes: A Game of Shadows'']),
     (''mission impossible'', [''Mission: Impossible - Dead Reckoning Part One'', ''Mission: Impossible - Fallout'']),
     (''top gun'', [''Top Gun: Maverick'']),
     (''avatar'', [''Avatar: The Way of Water'']),
     (''batman begins'', [''The Dark Knight'', ''The Dark Knight Rises'']),
     (''the dark knight'', [''The Dark Knight Rises'']),
     (''batman'', [''Batman Returns'', ''Batman Forever'', ''The Dark Knight'']),
     (''spider-man'', [''Spider-Man 2'', ''Spider-Man 3'', ''Spider-Man: No Way Home'']),
     (''iron man'', [''Iron Man 2'', ''Iron Man 3'']),
     (''thor'', [''Thor: The Dark World'', ''Thor: Ragnarok'', ''Thor: Love and Thunder'']),
     (''captain america'', [''Captain America: The Winter Soldier'', ''Captain America: Civil War'']),
     (''guardians of the galaxy'', [''Guardians of the Galaxy Vol. 2'', ''Guardians of the Galaxy Vol. 3'']),
     (''toy story'', [''Toy Story 2'', ''Toy Story 3'', ''Toy Story 4'']),
     (''john wick'', [''John Wick: Chapter 2'', ''John Wick: Chapter 3'', ''John Wick: Chapter 4'']),
     (''fast and furious'', [''2 Fast 2 Furious'', ''Fast & Furious'', ''Fast Five'', ''Fast X'']),
     (''the matrix'', [''The Matrix Reloaded'', ''The Matrix Revolutions'', ''The Matrix Resurrections'']),
     (''terminator'', [''Terminator 2: Judgment Day'', ''Terminator 3: Rise of the Machines'']),
     (''alien'', [''Aliens'', ''Alien 3'', ''Alien: Resurrection'']),
     (''star wars'', [''The Empire Strikes Back'', ''Return of the Jedi'']),
     (''back to the future'', [''Back to the Future Part II'', ''Back to the Future Part III'']),
     (''the godfather'', [''The Godfather Part II'', ''The Godfather Part III'']),
     (''knives out'', [''Glass Onion: A Knives Out Mystery'', ''Glass Onion''])]"

text \<open>
  The loop over the franchise map: the first franchise that equals, contains or is
  contained in the base title decides; of its sequels the first one not yet discussed
  is taken, the first of all when every one was discussed.
\<close>

fun findSequel :: "string \<Rightarrow> discussedMovie \<Rightarrow> discussedMovie list \<Rightarrow> (string \<times> string list) list \<Rightarrow> string option" where
  "findSequel baseLower lastMovie previousMovies [] = None"
| "findSequel baseLower lastMovie previousMovies ((franchise, sequels) # rest) =
     (if baseLower = franchise \<or> includesStr baseLower franchise \<or> includesStr franchise baseLower
      then (case find (\<lambda>sq. \<not> list_ex (\<lambda>prev. toLowerCase (d_title prev) = toLowerCase sq) previousMovies
                            \<and> toLowerCase (d_title lastMovie) \<noteq> toLowerCase sq) sequels of
              Some sq \<Rightarrow> Some sq
            | None \<Rightarrow> (case sequels of [] \<Rightarrow> None | sq # _ \<Rightarrow> Some sq))
      else findSequel baseLower lastMovie previousMovies rest)"

text \<open>
  What one matched group of \<^verbatim>\<open>contextualPatterns\<close> does: \<open>Some r\<close> is
  \<^verbatim>\<open>return r\<close>, and \<open>None\<close> means that no branch returned and the loop goes on with
  the next group.
\<close>

definition handleContext ::
  "string \<Rightarrow> string \<Rightarrow> discussedMovie \<Rightarrow> discussedMovie list \<Rightarrow> string list \<Rightarrow> contextKind \<Rightarrow> string option option" where
  "handleContext query lowerQuery lastMovie previousMovies patterns ctx =
     (let baseTitle = getBaseTitle (d_title lastMovie)
      in if ctx = ctx_specific_movie_mention then
           (if includesStr lowerQuery ''glass onion'' \<or> includesStr lowerQuery ''onion glass''
            then Some (Some ''Glass Onion'') else Some None)
         else if ctx = ctx_direct_reference then Some (Some (d_title lastMovie))
         else if ctx = ctx_recommendation \<or> ctx = ctx_comparison then Some None
         else if ctx = ctx_sequel \<or> ctx = ctx_sequel_inquiry then
           (case findSequel (toLowerCase baseTitle) lastMovie previousMovies sequelMap of
              None \<Rightarrow> Some (Some (baseTitle @ '' 2''))
            | Some foundSequel \<Rightarrow> Some (Some foundSequel))
         else if ctx = ctx_clarification then
           (if includesStr lowerQuery ''korean'' then Some (Some (baseTitle @ '' Korean''))
            else if includesStr lowerQuery ''different'' \<or> includesStr lowerQuery ''another'' then Some None
            else Some (Some baseTitle))
         else if ctx = ctx_country_specific then
           (case find (\<lambda>p. includesStr lowerQuery p) patterns of
              Some country \<Rightarrow> Some (Some (baseTitle @ '' '' @ country))
            | None \<Rightarrow> Some (Some (baseTitle @ '' undefined'')))
         else if ctx = ctx_recent then Some (Some baseTitle)
         else if ctx = ctx_year_specific then
           (case rx_match False (rseq [RWordB, year19or20, RWordB]) query of
              Some y \<Rightarrow> Some (Some (baseTitle @ '' '' @ y))
            | None \<Rightarrow> None)
         else None)"

fun contextualLoop ::
  "string \<Rightarrow> string \<Rightarrow> discussedMovie \<Rightarrow> discussedMovie list \<Rightarrow> (string list \<times> contextKind) list \<Rightarrow> string option" where
  "contextualLoop query lowerQuery lastMovie previousMovies [] = None"
| "contextualLoop query lowerQuery lastMovie previousMovies ((patterns, ctx) # rest) =
     (if list_ex (\<lambda>pattern. includesStr lowerQuery pattern) patterns
      then (case handleContext query lowerQuery lastMovie previousMovies patterns ctx of
              Some r \<Rightarrow> r
            | None \<Rightarrow> contextualLoop query lowerQuery lastMovie previousMovies rest)
      else contextualLoop query lowerQuery lastMovie previousMovies rest)"

text \<open>
  \<^verbatim>\<open>handleContextualQueries\<close>, on the conversation found in the store (\<open>None\<close> when
  the id is unknown). \<open>None\<close> is the source's \<^verbatim>\<open>null\<close>.
\<close>

definition handleContextualQueries :: "string \<Rightarrow> ConversationMemory option \<Rightarrow> string option" where
  "handleContextualQueries query conv =
     (case conv of
        None \<Rightarrow> None
      | Some conversation \<Rightarrow>
          if discussedMovies conversation = [] then None
          else
           (let lowerQuery = trim (toLowerCase query);
                lastMovie = last (discussedMovies conversation);
                previousMovies = butlast (discussedMovies conversation);
                directMatch = rx_match (fst directMoviePattern) (snd directMoviePattern) query;
                direct = (case directMatch of
                            None \<Rightarrow> None
                          | Some m \<Rightarrow>
                              if length m > 3 \<and> toLowerCase (trim m) \<noteq> toLowerCase (d_title lastMovie)
                              then Some (trim m) else None)
            in case direct of
                 Some potentialTitle \<Rightarrow> Some potentialTitle
               | None \<Rightarrow>
                   if includesStr lowerQuery (toLowerCase (d_title lastMovie)) then
                     (if includesStr lowerQuery ''different'' \<or> includesStr lowerQuery ''another''
                         \<or> includesStr lowerQuery ''else'' \<or> includesStr lowerQuery ''sequel''
                         \<or> includesStr lowerQuery ''1984''
                      then None else Some (d_title lastMovie))
                   else contextualLoop query lowerQuery lastMovie previousMovies contextualPatterns))"

text \<open>\<^verbatim>\<open>isCommonWord\<close>.\<close>

definition commonWords :: "string list" where
  "commonWords =
    [''the'', ''a'', ''an'', ''is'', ''are'', ''was'', ''were'', ''will'', ''would'', ''should'', ''could'',
     ''yes'', ''no'', ''ok'', ''okay'', ''sure'', ''yeah'', ''yep'', ''nope'',
     ''how'', ''what'', ''when'', ''where'', ''why'', ''who'', ''which'',
     ''sequel'', ''sequels'', ''recommendation'', ''recommend'', ''suggest'',
     ''better'', ''good'', ''bad'', ''great'', ''awesome'', ''terrible'',
     ''recent'', ''latest'', ''new'', ''old'', ''classic'', ''modern'']"

definition isCommonWord :: "string \<Rightarrow> bool" where
  "isCommonWord w = (toLowerCase w \<in> set commonWords)"

text \<open>The tables of \<^verbatim>\<open>extractTitlesWithRegex\<close>.\<close>

definition lazyTitle :: rx where
  "lazyTitle = RSeq letter (RLazyStar titleChar)"

definition nameChars :: rx where
  "nameChars = rplus (RSet [Lower, Upper, Spc])"

definition directPatterns :: "regex list" where
  "directPatterns =
    [(True, rseq [RBol, lazyTitle, sps, year19or20, REol]),
     (True, rseq [RBol, lazyTitle, sps, rlit ''with'', sps, nameChars, REol]),
     (True, rseq [RBol, lazyTitle, sps, year19or20, sps, rlit ''with'', sps, nameChars, REol])]"

definition specificMentions :: "(string \<times> string) list" where
  "specificMentions =
    [(''glass onion'', ''Glass Onion''), (''onion glass'', ''Glass Onion''), (''part two'', ''part two''),
     (''part 2'', ''part 2''), (''part ii'', ''part ii'')]"

text \<open>The class \<^verbatim>\<open>[a-zA-Z0-9\s&:'-]\<close>, taken lazily one or more times.\<close>

definition lazyWords :: rx where
  "lazyWords = rlazyplus (RSet [Lower, Upper, Dig, Spc,
     Ch CHR ''&'', Ch CHR '':'', Ch (CHR 0x27), Ch CHR ''-''])"

definition questionEnd :: rx where
  "questionEnd = rseq [sps0, ropt (rlit ''?''), REol]"

definition quoteChar :: rx where
  "quoteChar = RSet [Ch (CHR 0x22)]"

definition specificPatterns :: "regex list" where
  "specificPatterns =
    [(True, rseq [RBol, ralt [rwords [''how'', ''is''], rwords [''how'', ''was''], rlit (''how'' @ apos @ ''s''), rlit ''hows''],
                  sps, lazyWords, questionEnd]),
     (True, rseq [RBol, ralt [rwords [''give'', ''recommendation'', ''for''], rlit ''recommend'', rlit ''review''],
                  sps, lazyWords, questionEnd]),
     (True, rseq [RBol, ralt [rwords [''what'', ''about''], rwords [''tell'', ''me'', ''about''], rlit ''about''],
                  sps, lazyWords, questionEnd]),
     (False, rseq [RWordB, RSet [Upper],
                   RStar (RSet [Lower, Upper, Spc, Ch CHR ''&'', Ch CHR '':'',
                                Ch (CHR 0x27), Ch CHR ''-'']),
                   ralt [RSeq sps (rlit ''1984''), rseq [sps, rlit ''19'', digit, digit], rseq [sps, rlit ''20'', digit, digit]],
                   RWordB]),
     (True, rseq [movieOrFilm, sps, quoteChar, rplus (RNotSet [Ch (CHR 0x22)]), quoteChar]),
     (True, rseq [quoteChar, rplus (RNotSet [Ch (CHR 0x22)]), quoteChar, ropt (RSeq sps movieOrFilm)]),
     (True, rseq [nameChars, sps, ralts [''korean'', ''japanese'', ''chinese'', ''french'', ''italian'', ''spanish''],
                  sps0, ropt movieOrFilm]),
     (True, rseq [ralts [''korean'', ''japanese'', ''chinese'', ''french'', ''italian'', ''spanish''], sps, nameChars,
                  ropt (RAlt (RSeq sps (rlit ''movie'')) (RSeq sps (rlit ''film'')))])]"

text \<open>\<^verbatim>\<open>.replace(/\b(movie|film)\b/gi, '').trim()\<close>.\<close>

definition dropMovieWord :: "string \<Rightarrow> string" where
  "dropMovieWord s = trim (rx_remove_all True (rseq [RWordB, movieOrFilm, RWordB]) s)"

definition cleanMatch :: "string \<Rightarrow> string" where
  "cleanMatch m = dropMovieWord (trim (filter (\<lambda>c. c \<noteq> CHR 0x22) m))"

fun specificLoop :: "string \<Rightarrow> regex list \<Rightarrow> string list option" where
  "specificLoop query [] = None"
| "specificLoop query (pattern # rest) =
     (let titles = filter (\<lambda>t. length t > 2 \<and> \<not> isCommonWord t)
                     (map cleanMatch (rx_match_all (fst pattern) (snd pattern) query))
      in if titles \<noteq> [] then Some titles else specificLoop query rest)"

definition extractTitlesWithRegex :: "string \<Rightarrow> string list" where
  "extractTitlesWithRegex query =
     (if list_ex (\<lambda>pattern. test pattern (trim query)) directPatterns then [trim query]
      else (case find (\<lambda>(mention, t). includesStr (trim (toLowerCase query)) mention) specificMentions of
              Some (mention, t) \<Rightarrow> [t]
            | None \<Rightarrow>
               (case specificLoop query specificPatterns of
                  Some titles \<Rightarrow> titles
                | None \<Rightarrow>
                   (let fallbackTitle = dropMovieWord (trim query)
                    in if isCommonWord fallbackTitle \<or> length fallbackTitle < 3 then [] else [fallbackTitle]))))"

text \<open>
  \<^verbatim>\<open>/^(ace|mean\s+girls|[a-zA-Z][a-zA-Z\s:'-]*)\s+(19\d{2}|20\d{2}|with\s+[a-zA-Z\s]+)$/i\<close>
\<close>

definition directMovieWithSpecifics :: regex where
  "directMovieWithSpecifics = (True, rseq [RBol,
     ralt [rlit ''ace'', rwords [''mean'', ''girls''], RSeq letter (RStar titleChar)],
     sps,
     ralt [rseq [rlit ''19'', digit, digit], rseq [rlit ''20'', digit, digit], rseq [rlit ''with'', sps, nameChars]],
     REol])"

definition sentinels :: "string list" where
  "sentinels = [''COMPARISON_QUESTION'', ''SIMPLE_RESPONSE'', ''PREFERENCE_QUESTION'', ''GENERAL_RECOMMENDATION'',
     ''SIMILAR_RECOMMENDATION'', ''FOLLOW_UP_QUESTION'']"

definition addTokens :: "string \<Rightarrow> nat \<Rightarrow> chain \<Rightarrow> chain" where
  "addTokens conversationId tokensUsed st =
     (case conversationStore st conversationId of
        None \<Rightarrow> st
      | Some conversation \<Rightarrow>
          st\<lparr>conversationStore := (conversationStore st)
               (conversationId \<mapsto> conversation\<lparr>totalTokens := totalTokens conversation + tokensUsed\<rparr>)\<rparr>)"

text \<open>
  \<^verbatim>\<open>extractMovieTitles\<close>: the direct bypass, the contextual resolution, the
  language-model extraction (\<open>modelExtraction\<close>; the model's answer is \<open>titleModel e\<close>)
  and the regex fallback, in this order. The state changes only by the token count of
  a model answer that was used.
\<close>

definition modelExtraction :: "env \<Rightarrow> string \<Rightarrow> string \<Rightarrow> chain \<Rightarrow> string list \<times> chain" where
  "modelExtraction e query conversationId st =
     (case titleModel e of
        LlmError \<Rightarrow> (extractTitlesWithRegex query, st)
      | LlmText txt tokensUsed \<Rightarrow>
          (case txt of
             None \<Rightarrow> (extractTitlesWithRegex query, st)
           | Some raw \<Rightarrow>
               if trim raw \<in> set sentinels then ([], addTokens conversationId tokensUsed st)
               else if trim raw \<noteq> [] \<and> trim raw \<noteq> ''N/A''
                 then ([trim raw], addTokens conversationId tokensUsed st)
               else (extractTitlesWithRegex query, st)))"

definition extractMovieTitles :: "env \<Rightarrow> string \<Rightarrow> string \<Rightarrow> chain \<Rightarrow> string list \<times> chain" where
  "extractMovieTitles e query conversationId st =
     (if test directMovieWithSpecifics (trim query) then ([trim query], st)
      else
       (case handleContextualQueries query (conversationStore st conversationId) of
          Some contextualTitle \<Rightarrow>
            if contextualTitle \<noteq> [] then ([contextualTitle], st)
            else modelExtraction e query conversationId st
        | None \<Rightarrow> modelExtraction e query conversationId st))"


section \<open>The recommendation generator\<close>

text \<open>
  A JavaScript number, as far as the chain needs it: not-a-number, an infinity with
  its sign (\<open>True\<close> for the negative one), or a finite binary64 value, held as the
  rational it denotes.
\<close>

datatype jsNumber = NaN | Infinite bool | Finite rat

definition pow2 :: "int \<Rightarrow> rat" where
  "pow2 d = (if 0 \<le> d then 2 ^ nat d else 1 / 2 ^ nat (- d))"

definition pow10 :: "int \<Rightarrow> rat" where
  "pow10 d = (if 0 \<le> d then 10 ^ nat d else 1 / 10 ^ nat (- d))"

text \<open>The number of binary digits of a positive integer.\<close>

fun bitLength :: "nat \<Rightarrow> nat" where
  "bitLength n = (if n = 0 then 0 else Suc (bitLength (n div 2)))"

text \<open>\<open>\<lfloor>log\<^sub>2 a\<rfloor>\<close> for a positive rational \<open>a\<close>.\<close>

definition floorLog2 :: "rat \<Rightarrow> int" where
  "floorLog2 a =
     (let (p, q) = quotient_of a;
          d = int (bitLength (nat p)) - int (bitLength (nat q))
      in if pow2 d \<le> a then d else d - 1)"

definition roundHalfEven :: "rat \<Rightarrow> int" where
  "roundHalfEven m =
     (let f = \<lfloor>m\<rfloor>; r = m - of_int f
      in if r < 1 / 2 then f else if 1 / 2 < r then f + 1 else if even f then f else f + 1)"

text \<open>
  Rounding a real value to binary64, to nearest with ties to even: 53 significant
  bits, the least exponent -1022, and an overflow to infinity from \<open>2\<^sup>1\<^sup>0\<^sup>2\<^sup>4\<close>.
\<close>

definition roundDouble :: "rat \<Rightarrow> jsNumber" where
  "roundDouble x =
     (if x = 0 then Finite 0
      else
       (let a = \<bar>x\<bar>;
            ex = max (floorLog2 a) (- 1022);
            quantum = pow2 (ex - 52);
            v = of_int (roundHalfEven (a / quantum)) * quantum
        in if pow2 1024 \<le> v then Infinite (x < 0)
           else Finite (if x < 0 then - v else v)))"

definition digitsValue :: "string \<Rightarrow> nat" where
  "digitsValue ds = foldl (\<lambda>a c. 10 * a + (code c - 48)) 0 ds"

text \<open>An optional sign: whether it is a minus, and the rest.\<close>

definition signOf :: "string \<Rightarrow> bool \<times> string" where
  "signOf s =
     (case s of
        [] \<Rightarrow> (False, [])
      | c # r \<Rightarrow> if c = CHR ''-'' then (True, r) else if c = CHR ''+'' then (False, r) else (False, s))"

text \<open>The exponent part \<^verbatim>\<open>e\<close>, sign, digits, when it is complete; otherwise it is not read.\<close>

definition exponentOf :: "string \<Rightarrow> int" where
  "exponentOf s =
     (case s of
        [] \<Rightarrow> 0
      | c # r \<Rightarrow>
          if c = CHR ''e'' \<or> c = CHR ''E'' then
            (let (neg, r') = signOf r; ds = takeWhile isDigit r'
             in if ds = [] then 0 else if neg then - int (digitsValue ds) else int (digitsValue ds))
          else 0)"

text \<open>
  \<^verbatim>\<open>parseFloat\<close>: leading white space is skipped, the longest prefix that is a decimal
  literal is read, and what follows is ignored; without such a prefix the result is
  not-a-number.
\<close>

definition parseFloat :: "string \<Rightarrow> jsNumber" where
  "parseFloat s =
     (let (neg, u) = signOf (dropWhile isSpace s)
      in if startsWith u ''Infinity'' then Infinite neg
         else
          (let ip = takeWhile isDigit u;
               r1 = dropWhile isDigit u;
               fp = (case r1 of [] \<Rightarrow> [] | c # r \<Rightarrow> if c = CHR ''.'' then takeWhile isDigit r else []);
               r2 = (case r1 of [] \<Rightarrow> [] | c # r \<Rightarrow> if c = CHR ''.'' then dropWhile isDigit r else r1)
           in if ip = [] \<and> fp = [] then NaN
              else
               (let m = of_nat (digitsValue (ip @ fp)) * pow10 (exponentOf r2 - int (length fp))
                in roundDouble (if neg then - m else m))))"

text \<open>The comparison \<^verbatim>\<open>x >= 7.0\<close>.\<close>

definition atLeast7 :: "jsNumber \<Rightarrow> bool" where
  "atLeast7 x = (case x of NaN \<Rightarrow> False | Infinite neg \<Rightarrow> \<not> neg | Finite v \<Rightarrow> 7 \<le> v)"

text \<open>\<^verbatim>\<open>parseFloat(movieData.imdbRating || '0') >= 7.0\<close>.\<close>

definition worthWatchingOf :: "movie \<Rightarrow> bool" where
  "worthWatchingOf movieData = atLeast7 (parseFloat (orElse (imdbRating movieData) ''0''))"

record Recommendation =
  rec_id :: string
  movie_id :: string
  recommendation :: string
  worth_watching :: bool
  rec_created_at :: string
  tokensUsed :: nat

definition genreMovies :: "(string \<times> string list) list" where
  "genreMovies =
    [(''Action'', [''John Wick'', ''Mad Max: Fury Road'', ''The Dark Knight'', ''Terminator 2'']),
     (''Drama'', [''The Shawshank Redemption'', ''Forrest Gump'', ''Goodfellas'', ''Casablanca'']),
     (''Comedy'', [''The Grand Budapest Hotel'', ''Parasite'', ''Superbad'', ''Groundhog Day'']),
     (''Thriller'', [''Gone Girl'', ''Zodiac'', ''Se7en'', ''The Silence of the Lambs'']),
     (''Horror'', [''Hereditary'', ''The Conjuring'', ''Get Out'', ''A Quiet Place'']),
     (''Sci-Fi'', [''Blade Runner 2049'', ''Inception'', ''Interstellar'', ''The Matrix'']),
     (''Fantasy'', [''The Lord of the Rings'', ''Pan'' @ apos @ ''s Labyrinth'', ''The Shape of Water'', ''Big Fish'']),
     (''Romance'', [''Before Sunset'', ''Eternal Sunshine'', ''Her'', ''La La Land'']),
     (''Crime'', [''Pulp Fiction'', ''The Godfather'', ''Fargo'', ''No Country for Old Men'']),
     (''Animation'', [''Spider-Man: Into the Spider-Verse'', ''WALL-E'', ''Your Name'', ''Spirited Away'']),
     (''Adventure'', [''Indiana Jones'', ''Jurassic Park'', ''Pirates of the Caribbean'', ''Guardians of the Galaxy'']),
     (''War'', [''Saving Private Ryan'', ''Apocalypse Now'', ''Dunkirk'', ''1917'']),
     (''Documentary'', [''Free Solo'', ''Won'' @ apos @ ''t You Be My Neighbor?'', ''The Act of Killing'',
                       ''March of the Penguins'']),
     (''Biography'', [''The Social Network'', ''Steve Jobs'', ''Malcolm X'', ''Gandhi'']),
     (''Mystery'', [''Knives Out'', ''The Prestige'', ''Shutter Island'', ''Prisoners''])]"

definition popularMovies :: "string list" where
  "popularMovies = [''The Dark Knight'', ''Inception'', ''Pulp Fiction'']"

text \<open>
  \<^verbatim>\<open>[...movies].sort(() => 0.5 - Math.random())\<close>. The comparator ignores its arguments,
  so the order depends on the draws alone. The model sorts by insertion: an element
  goes before the next one when the comparator's value \<open>1/2 - rnd k\<close> is negative,
  and each comparison takes a draw of its own.
\<close>

fun insertRandom :: "(nat \<Rightarrow> rat) \<Rightarrow> nat \<Rightarrow> 'a \<Rightarrow> 'a list \<Rightarrow> 'a list" where
  "insertRandom rnd k x [] = [x]"
| "insertRandom rnd k x (y # ys) =
     (if 1 / 2 - rnd k < 0 then x # y # ys else y # insertRandom rnd (Suc k) x ys)"

fun sortRandom :: "(nat \<Rightarrow> rat) \<Rightarrow> nat \<Rightarrow> 'a list \<Rightarrow> 'a list" where
  "sortRandom rnd k [] = []"
| "sortRandom rnd k (x # xs) = insertRandom rnd k x (sortRandom rnd (k + length xs) xs)"

fun similarLoop :: "(nat \<Rightarrow> rat) \<Rightarrow> string \<Rightarrow> (string \<times> string list) list \<Rightarrow> string list" where
  "similarLoop rnd lowerGenre [] = popularMovies"
| "similarLoop rnd lowerGenre ((key, movies) # rest) =
     (if includesStr lowerGenre (toLowerCase key) \<or> includesStr (toLowerCase key) lowerGenre
      then take 3 (sortRandom rnd 0 movies)
      else similarLoop rnd lowerGenre rest)"

definition getSimilarMoviesByGenre :: "(nat \<Rightarrow> rat) \<Rightarrow> string \<Rightarrow> string list" where
  "getSimilarMoviesByGenre rnd g = similarLoop rnd (toLowerCase g) genreMovies"

text \<open>The truncation of a generated text to \<^verbatim>\<open>MAX_RECOMMENDATION_LENGTH = 600\<close>.\<close>

definition truncateRecommendation :: "string \<Rightarrow> string" where
  "truncateRecommendation recommendationText =
     (if length recommendationText > 600 then
        (let truncated = take 600 recommendationText;
             lastSentence = lastIndexOf truncated CHR ''.''
         in if lastSentence > 200 then take (nat (lastSentence + 1)) truncated
            else take (600 - 3) truncated @ ''...'')
      else recommendationText)"

text \<open>The template of the \<^verbatim>\<open>catch\<close> branch. A missing genre prints as \<^verbatim>\<open>undefined\<close>.\<close>

definition fallbackText :: "movie \<Rightarrow> string list \<Rightarrow> string" where
  "fallbackText movieData similarMovies =
     (let worthWatching = worthWatchingOf movieData;
          quality = (if worthWatching then ''Worth watching with solid ratings and engaging content.''
                     else ''Consider carefully as ratings suggest mixed reception.'')
      in dquote @ title movieData @ dquote @ '' ('' @ year movieData @ '') - '' @ quality
         @ '' Appeals to fans of '' @ (case genre movieData of None \<Rightarrow> ''undefined'' | Some g \<Rightarrow> g)
         @ '' cinema and those seeking ''
         @ (if worthWatching then ''quality entertainment'' else ''alternative viewing'')
         @ ''. Similar movies: '' @ join '', '' (take 3 similarMovies) @ ''.'')"

text \<open>
  \<^verbatim>\<open>generateRecommendation\<close>. The answer of the recommendation chain is
  \<open>recommendationModel e\<close>; \<open>LlmError\<close> is an exception thrown inside \<^verbatim>\<open>try\<close>, which
  the \<^verbatim>\<open>catch\<close> branch turns into the templated recommendation. The context string
  that the source builds from the memory only feeds the model.
\<close>

definition generateRecommendation :: "env \<Rightarrow> movie \<Rightarrow> string \<Rightarrow> chain \<Rightarrow> Recommendation \<times> chain" where
  "generateRecommendation e movieData conversationId st =
     (case recommendationModel e of
        LlmText txt used \<Rightarrow>
          (let recommendationText = truncateRecommendation (case txt of None \<Rightarrow> [] | Some t \<Rightarrow> trim t)
           in (\<lparr>rec_id = newId e 0, movie_id = m_id movieData, recommendation = recommendationText,
                worth_watching = worthWatchingOf movieData, rec_created_at = isoTime e, tokensUsed = used\<rparr>,
               addTokens conversationId used st))
      | LlmError \<Rightarrow>
          (let similarMovies = getSimilarMoviesByGenre (random e) (orElse (genre movieData) ''Drama'')
           in (\<lparr>rec_id = newId e 0, movie_id = m_id movieData,
                recommendation = fallbackText movieData similarMovies,
                worth_watching = worthWatchingOf movieData, rec_created_at = isoTime e, tokensUsed = 0\<rparr>,
               st)))"


section \<open>The store and the catalog\<close>

text \<open>
  The case-insensitive pattern match \<^verbatim>\<open>ilike\<close> of the store: \<^verbatim>\<open>%\<close> stands for any
  text and \<^verbatim>\<open>_\<close> for one character.
\<close>

fun likeMatch :: "string \<Rightarrow> string \<Rightarrow> bool" where
  "likeMatch [] t = (t = [])"
| "likeMatch (p # ps) [] = (p = CHR ''%'' \<and> likeMatch ps [])"
| "likeMatch (p # ps) (c # cs) =
     (if p = CHR ''%'' then likeMatch ps (c # cs) \<or> likeMatch (p # ps) cs
      else if p = CHR ''_'' then likeMatch ps cs
      else p = c \<and> likeMatch ps cs)"

definition ilike :: "string \<Rightarrow> string \<Rightarrow> bool" where
  "ilike text pattern = likeMatch (toLowerCase pattern) (toLowerCase text)"

text \<open>\<^verbatim>\<open>.single()\<close> and \<^verbatim>\<open>.maybeSingle()\<close> give a row only when exactly one row matches.\<close>

definition single :: "'a list \<Rightarrow> 'a option" where
  "single rows = (case rows of [r] \<Rightarrow> Some r | _ \<Rightarrow> None)"

text \<open>\<^verbatim>\<open>s.split(' ')\<close>.\<close>

fun splitOn :: "char \<Rightarrow> string \<Rightarrow> string list" where
  "splitOn c [] = [[]]"
| "splitOn c (x # xs) =
     (if x = c then [] # splitOn c xs
      else (case splitOn c xs of [] \<Rightarrow> [[x]] | w # ws \<Rightarrow> (x # w) # ws))"

text \<open>\<^verbatim>\<open>findBestTitleMatch\<close>, with its local \<^verbatim>\<open>normalize\<close> and the score of one row.\<close>

definition normalizeTitle :: "string \<Rightarrow> string" where
  "normalizeTitle str = trim (filter (\<lambda>c. isWordChar c \<or> isSpace c) (toLowerCase str))"

definition titleScore :: "string \<Rightarrow> movieRow \<Rightarrow> int" where
  "titleScore searchTitle row =
     (let searchNormalized = normalizeTitle searchTitle;
          movieNormalized = normalizeTitle (title (m_row row));
          commonCount = length (filter (\<lambda>w. includesStr movieNormalized w \<and> length w > 2)
                                  (splitOn CHR '' '' searchNormalized));
          lengthDiff = \<bar>int (length searchNormalized) - int (length movieNormalized)\<bar>
      in int commonCount * 10 - lengthDiff)"

definition findBestTitleMatch :: "string \<Rightarrow> movieRow \<Rightarrow> movieRow list \<Rightarrow> movieRow" where
  "findBestTitleMatch searchTitle first movies =
     fst (foldl (\<lambda>(bestMatch, bestScore) row.
                  if titleScore searchTitle row > bestScore then (row, titleScore searchTitle row)
                  else (bestMatch, bestScore))
            (first, 0) movies)"

text \<open>\<^verbatim>\<open>title.replace(/\s+/g, '%')\<close>.\<close>

primrec wildcardRuns :: "bool \<Rightarrow> string \<Rightarrow> string" where
  "wildcardRuns inRun [] = []"
| "wildcardRuns inRun (c # cs) =
     (if isSpace c then (if inRun then wildcardRuns True cs else CHR ''%'' # wildcardRuns True cs)
      else c # wildcardRuns False cs)"

definition spacesToWildcard :: "string \<Rightarrow> string" where
  "spacesToWildcard t = wildcardRuns False t"

definition searchPatterns :: "string \<Rightarrow> string list" where
  "searchPatterns t =
     [''%'' @ t @ ''%'', ''%'' @ filter (\<lambda>c. c \<noteq> CHR '':'') t @ ''%'', ''%'' @ spacesToWildcard t @ ''%'']"

text \<open>The fuzzy queries for one title; a query that fails is skipped.\<close>

fun fuzzyLoop :: "env \<Rightarrow> string \<Rightarrow> string \<Rightarrow> string list \<Rightarrow> chain \<Rightarrow> movieRow option \<times> chain" where
  "fuzzyLoop e t uid [] st = (None, st)"
| "fuzzyLoop e t uid (pattern # rest) st =
     (let st1 = dbCall SelectMovies st;
          fuzzyMatches = take 3 (filter (\<lambda>r. m_user r = uid \<and> ilike (title (m_row r)) pattern) (moviesTable st))
      in if dbFailed e st then fuzzyLoop e t uid rest st1
         else (case fuzzyMatches of
                 [] \<Rightarrow> fuzzyLoop e t uid rest st1
               | r # rs \<Rightarrow> (Some (findBestTitleMatch t r (r # rs)), st1)))"

fun searchLoop :: "env \<Rightarrow> string \<Rightarrow> string list \<Rightarrow> chain \<Rightarrow> movieRow option \<times> chain" where
  "searchLoop e uid [] st = (None, st)"
| "searchLoop e uid (t # rest) st =
     (let st1 = dbCall SelectMovies st;
          exactMatch = (if dbFailed e st then None
                        else single (filter (\<lambda>r. m_user r = uid \<and> ilike (title (m_row r)) t) (moviesTable st)))
      in case exactMatch of
           Some r \<Rightarrow> (Some r, st1)
         | None \<Rightarrow>
             (case fuzzyLoop e t uid (searchPatterns t) st1 of
                (Some r, st2) \<Rightarrow> (Some r, st2)
              | (None, st2) \<Rightarrow> searchLoop e uid rest st2))"

text \<open>\<^verbatim>\<open>searchDatabase\<close>: without a user id it returns \<^verbatim>\<open>null\<close> before any query.\<close>

definition searchDatabase :: "env \<Rightarrow> string list \<Rightarrow> string option \<Rightarrow> chain \<Rightarrow> movieRow option \<times> chain" where
  "searchDatabase e titles userId st =
     (case truthy userId of
        None \<Rightarrow> (None, st)
      | Some uid \<Rightarrow> searchLoop e uid titles st)"

text \<open>
  The movie data that reaches \<^verbatim>\<open>normalizeMovieData\<close>: a row of the store or an
  answer of the catalog.
\<close>

datatype rawMovie = FromStore movieRow | FromCatalog omdbMovie

definition normalizeMovieData :: "env \<Rightarrow> rawMovie \<Rightarrow> movie" where
  "normalizeMovieData e movieData =
     (case movieData of
        FromStore row \<Rightarrow>
          (m_row row)\<lparr>m_id := (if m_id (m_row row) = [] then newId e 1 else m_id (m_row row)),
                      imdbRating := Some (orElse (imdbRating (m_row row)) ''N/A''),
                      genre := Some (orElse (genre (m_row row)) []),
                      created_at := (if created_at (m_row row) = [] then isoTime e else created_at (m_row row))\<rparr>
      | FromCatalog m \<Rightarrow>
          \<lparr>m_id = newId e 1, title = o_Title m, year = o_Year m, imdbID = o_imdbID m, poster = o_Poster m,
           imdbRating = Some (if o_imdbRating m = [] then ''N/A'' else o_imdbRating m),
           imdbVotes = o_imdbVotes m, plot = o_Plot m, director = o_Director m, actors = o_Actors m,
           genre = Some (o_Genre m), created_at = isoTime e\<rparr>)"

text \<open>
  \<^verbatim>\<open>saveToDatabase\<close>: the user's row for this catalog id is looked up and, when there is
  none, inserted. The result is \<^verbatim>\<open>movieSaved\<close> and \<^verbatim>\<open>movieId\<close>.
\<close>

definition saveToDatabase :: "env \<Rightarrow> movie \<Rightarrow> string \<Rightarrow> chain \<Rightarrow> (bool \<times> string) \<times> chain" where
  "saveToDatabase e movieData uid st =
     (let st1 = dbCall SelectMovies st;
          existingUserMovie =
            (if dbFailed e st then None
             else single (filter (\<lambda>r. m_user r = uid \<and> imdbID (m_row r) = imdbID movieData) (moviesTable st)))
      in case existingUserMovie of
           Some r \<Rightarrow> ((True, m_id (m_row r)), st1)
         | None \<Rightarrow>
             (let st2 = dbCall InsertMovie st1
              in if dbFailed e st1 then ((False, m_id movieData), st2)
                 else ((True, newId e 2),
                       st2\<lparr>moviesTable := moviesTable st2 @
                            [\<lparr>m_row = movieData\<lparr>m_id := newId e 2, created_at := isoTime e\<rparr>, m_user = uid\<rparr>]\<rparr>)))"

definition selectRecommendation :: "env \<Rightarrow> string \<Rightarrow> chain \<Rightarrow> recommendationRow option \<times> chain" where
  "selectRecommendation e mid st =
     (let st1 = dbCall SelectRecommendations st
      in if dbFailed e st then (None, st1)
         else (single (filter (\<lambda>r. r_movie_id r = mid) (recommendationsTable st)), st1))"

definition getExistingRecommendation ::
  "env \<Rightarrow> movie \<Rightarrow> string option \<Rightarrow> chain \<Rightarrow> recommendationRow option \<times> chain" where
  "getExistingRecommendation e movieData userId st =
     (case truthy userId of
        None \<Rightarrow> selectRecommendation e (m_id movieData) st
      | Some uid \<Rightarrow>
          if imdbID movieData = [] then selectRecommendation e (m_id movieData) st
          else
           (let st1 = dbCall SelectMovies st;
                userMovie =
                  (if dbFailed e st then None
                   else single (filter (\<lambda>r. m_user r = uid \<and> imdbID (m_row r) = imdbID movieData) (moviesTable st)))
            in case userMovie of
                 None \<Rightarrow> (None, st1)
               | Some r \<Rightarrow> selectRecommendation e (m_id (m_row r)) st1))"

section \<open>The pipeline\<close>

record ChainContext =
  cx_userId :: "string option"
  cx_query :: string
  cx_conversationId :: string
  cx_sessionId :: string

record responseRecommendation =
  rr_id :: string
  rr_movie_id :: string
  rr_recommendation :: string
  rr_worth_watching :: bool
  rr_created_at :: string

record response =
  res_message :: string
  res_movie :: "movie option"
  res_recommendation :: "responseRecommendation option"
  res_conversation :: "(nat \<times> nat) option"

definition reply :: "string \<Rightarrow> response" where
  "reply msg = \<lparr>res_message = msg, res_movie = None, res_recommendation = None, res_conversation = None\<rparr>"

text \<open>\<^verbatim>\<open>loadConversation\<close>: from the in-process store, else from the table, else a new memory.\<close>

definition loadConversation :: "env \<Rightarrow> string \<Rightarrow> chain \<Rightarrow> chain" where
  "loadConversation e conversationId st =
     (case conversationStore st conversationId of
        Some c \<Rightarrow> st
      | None \<Rightarrow>
          (let st1 = dbCall SelectConversation st;
               loaded = (if dbFailed e st then None else conversationsTable st conversationId)
           in case loaded of
                Some row \<Rightarrow> st1\<lparr>conversationStore := (conversationStore st1)(conversationId \<mapsto> c_memory row)\<rparr>
              | None \<Rightarrow> st1\<lparr>conversationStore := (conversationStore st1)(conversationId \<mapsto> newConversation)\<rparr>))"

definition greetingPatterns :: "string list" where
  "greetingPatterns =
    [''hi'', ''hello'', ''hey'', ''hi there'', ''hello there'', ''good morning'', ''good afternoon'', ''good evening'',
     ''how are you'', ''whats up'', ''what'' @ apos @ ''s up'', ''sup'',
     ''how is goosebumps'', ''how are goosebumps'', ''goosebumps'']"

definition endsWith :: "string \<Rightarrow> string \<Rightarrow> bool" where
  "endsWith s p = startsWith (rev s) (rev p)"

definition isGeneralGreeting :: "string \<Rightarrow> bool" where
  "isGeneralGreeting q =
     (let normalizedQuery = trim (toLowerCase q)
      in list_ex (\<lambda>pattern. normalizedQuery = pattern \<or> startsWith normalizedQuery (pattern @ '' '')
                    \<or> endsWith normalizedQuery ('' '' @ pattern)) greetingPatterns)"

definition helpText :: string where
  "helpText = ''I'' @ apos @ ''m here to help you discover great movies! What film interests you?''"

text \<open>
  \<^verbatim>\<open>handleGeneralConversation\<close>. The answer of the conversation chain is
  \<open>conversationModel e\<close>; the LangChain buffer that the source refills only feeds it.
\<close>

definition handleGeneralConversation :: "env \<Rightarrow> ChainContext \<Rightarrow> chain \<Rightarrow> response \<times> chain" where
  "handleGeneralConversation e cx st =
     (let cid = cx_conversationId cx;
          isNewConversation = (case conversationStore st cid of None \<Rightarrow> True | Some c \<Rightarrow> length (messages c) \<le> 1)
      in case conversationModel e of
           LlmError \<Rightarrow> (reply helpText, saveAssistantMessage e cid helpText None (cx_userId cx) st)
         | LlmText txt used \<Rightarrow>
             (let generated = (case txt of None \<Rightarrow> helpText | Some t \<Rightarrow> if trim t = [] then helpText else trim t);
                  responseText = (if isNewConversation \<and> isGeneralGreeting (cx_query cx)
                                  then ''Hello! I'' @ apos @ ''m your movie advisor. What film has caught your interest today?''
                                  else generated);
                  st1 = addTokens cid used st;
                  st2 = saveAssistantMessage e cid responseText None (cx_userId cx) st1
              in ((reply responseText)\<lparr>res_conversation :=
                     Some (case conversationStore st1 cid of
                             None \<Rightarrow> (1, used)
                           | Some c \<Rightarrow> (if turnCount c = 0 then 1 else turnCount c,
                                         if totalTokens c = 0 then used else totalTokens c))\<rparr>,
                  st2)))"

text \<open>The reply when no title was found.\<close>

definition sequelRequestPattern :: regex where
  "sequelRequestPattern = (True, ralt [rlit ''sequel'', rlit ''next'', rseq [rlit ''follow'', RAny, rlit ''up''],
     rwords [''part'', ''2''], rwords [''part'', ''ii''], rlit ''1984''])"

definition differentRequestPattern :: regex where
  "differentRequestPattern = (True, ralts [''sequel'', ''different'', ''another'', ''else'', ''1984'', ''new'', ''next''])"

definition noTitleResponse :: "string \<Rightarrow> ConversationMemory option \<Rightarrow> string" where
  "noTitleResponse q conv =
     (case conv of
        None \<Rightarrow> ''I couldn'' @ apos @ ''t identify a movie in your query. Could you please specify which movie you''
                 @ apos @ ''re asking about?''
      | Some conversation \<Rightarrow>
          if discussedMovies conversation = [] then
            ''I couldn'' @ apos @ ''t identify a movie in your query. Could you please specify which movie you''
            @ apos @ ''re asking about?''
          else if test sequelRequestPattern q then
            ''I understand you'' @ apos @ ''re looking for a sequel or different version of '' @ dquote
            @ d_title (last (discussedMovies conversation)) @ dquote
            @ ''. Could you be more specific? For example, try '' @ dquote @ ''Wonder Woman 1984'' @ dquote
            @ '' if you'' @ apos @ ''re looking for that specific movie.''
          else
            ''I'' @ apos @ ''m not sure which movie you'' @ apos @ ''re referring to. Are you asking about '' @ dquote
            @ d_title (last (discussedMovies conversation)) @ dquote @ '' or a different film? Please clarify.'')"

text \<open>The anti-repetition check of step 4.\<close>

definition antiRepetition :: "string \<Rightarrow> string list \<Rightarrow> ConversationMemory option \<Rightarrow> bool" where
  "antiRepetition q movieTitles conv =
     (case conv of
        None \<Rightarrow> False
      | Some conversation \<Rightarrow>
          (case movieTitles of
             [] \<Rightarrow> False
           | t # _ \<Rightarrow>
               discussedMovies conversation \<noteq> [] \<and> test differentRequestPattern q
               \<and> (toLowerCase t = toLowerCase (d_title (last (discussedMovies conversation)))
                  \<or> extractBaseTitle (toLowerCase t)
                     = extractBaseTitle (toLowerCase (d_title (last (discussedMovies conversation)))))))"

definition clarificationResponse :: "string \<Rightarrow> string" where
  "clarificationResponse t =
     ''I see you mentioned '' @ dquote @ t @ dquote
     @ '', but it seems like you might be looking for a different movie or sequel. Could you be more specific? ''
     @ ''For example, if you'' @ apos @ ''re looking for Wonder Woman'' @ apos @ ''s sequel, try '' @ dquote
     @ ''Wonder Woman 1984'' @ dquote @ ''.''"

definition notFoundResponse :: "string \<Rightarrow> string \<Rightarrow> ConversationMemory option \<Rightarrow> string" where
  "notFoundResponse q t conv =
     (let plain = ''I couldn'' @ apos @ ''t find information about '' @ dquote @ t @ dquote
                  @ ''. Could you check the spelling or try asking about a different movie?''
      in case conv of
           None \<Rightarrow> plain
         | Some conversation \<Rightarrow>
             if discussedMovies conversation = [] then plain
             else if includesStr (toLowerCase t) ''korean'' \<or> includesStr (toLowerCase t) ''japanese''
                     \<or> includesStr (toLowerCase q) ''korean'' \<or> includesStr (toLowerCase q) ''japanese''
             then ''I couldn'' @ apos @ ''t find a Korean version of '' @ dquote
                  @ d_title (last (discussedMovies conversation)) @ dquote
                  @ ''. You might be thinking of a different Korean film with a similar theme. Could you provide more ''
                  @ ''details or try searching for specific Korean movie titles?''
             else ''I couldn'' @ apos @ ''t find '' @ dquote @ t @ dquote @ ''. Are you looking for something similar to ''
                  @ dquote @ d_title (last (discussedMovies conversation)) @ dquote
                  @ '' that we discussed earlier, or a completely different movie?'')"

text \<open>
  Steps 5 and 6: the user's rows first, then the catalog. \<open>catalog e\<close> is the answer
  of \<^verbatim>\<open>searchOMDB\<close>, which talks to the external service only.
\<close>

definition lookupMovie :: "env \<Rightarrow> string list \<Rightarrow> string option \<Rightarrow> chain \<Rightarrow> rawMovie option \<times> chain" where
  "lookupMovie e movieTitles userId st =
     (case searchDatabase e movieTitles userId st of
        (Some row, st1) \<Rightarrow> (Some (FromStore row), st1)
      | (None, st1) \<Rightarrow> (case catalog e movieTitles of None \<Rightarrow> (None, st1) | Some m \<Rightarrow> (Some (FromCatalog m), st1)))"

text \<open>Step 8: a signed-in user gets a movie row; the movie takes the row's id.\<close>

definition ensureUserMovie :: "env \<Rightarrow> movie \<Rightarrow> string option \<Rightarrow> chain \<Rightarrow> movie \<times> chain" where
  "ensureUserMovie e normalizedMovie userId st =
     (case truthy userId of
        None \<Rightarrow> (normalizedMovie, st)
      | Some uid \<Rightarrow>
          (case saveToDatabase e normalizedMovie uid st of
             ((saved, movieId), st1) \<Rightarrow>
               (if movieId \<noteq> [] then normalizedMovie\<lparr>m_id := movieId\<rparr> else normalizedMovie, st1)))"

text \<open>Step 11: the new recommendation is stored for a signed-in user with a movie id.\<close>

definition saveRecommendation :: "env \<Rightarrow> movie \<Rightarrow> Recommendation \<Rightarrow> string option \<Rightarrow> chain \<Rightarrow> chain" where
  "saveRecommendation e normalizedMovie rec userId st =
     (if truthy userId \<noteq> None \<and> m_id normalizedMovie \<noteq> [] then
        (let st1 = dbCall InsertRecommendation st
         in if dbFailed e st then st1
            else st1\<lparr>recommendationsTable := recommendationsTable st1 @
                   [\<lparr>r_id = newId e 3, r_movie_id = m_id normalizedMovie, r_recommendation = recommendation rec,
                     r_worth_watching = worth_watching rec, r_created_at = isoTime e\<rparr>]\<rparr>)
      else st)"

definition currentCounts :: "string \<Rightarrow> chain \<Rightarrow> nat \<times> nat" where
  "currentCounts cid st =
     (case conversationStore st cid of None \<Rightarrow> (0, 0) | Some c \<Rightarrow> (turnCount c, totalTokens c))"

text \<open>Steps 7 to 13, for the movie data that the lookup found.\<close>

definition recommendMovie :: "env \<Rightarrow> ChainContext \<Rightarrow> rawMovie \<Rightarrow> chain \<Rightarrow> response \<times> chain" where
  "recommendMovie e cx movieData st =
     (let cid = cx_conversationId cx;
          userId = cx_userId cx
      in case ensureUserMovie e (normalizeMovieData e movieData) userId st of
           (normalizedMovie, st1) \<Rightarrow>
             (case getExistingRecommendation e normalizedMovie userId st1 of
                (Some existing, st2) \<Rightarrow>
                  (let chatMessage = ''Here'' @ apos @ ''s my detailed recommendation for '' @ dquote
                         @ title normalizedMovie @ dquote @ '' ('' @ year normalizedMovie @ '').'';
                       counts = currentCounts cid st2
                   in (\<lparr>res_message = chatMessage, res_movie = Some normalizedMovie,
                        res_recommendation = Some \<lparr>rr_id = r_id existing, rr_movie_id = m_id normalizedMovie,
                           rr_recommendation = r_recommendation existing,
                           rr_worth_watching = r_worth_watching existing, rr_created_at = r_created_at existing\<rparr>,
                        res_conversation = Some (fst counts + 1, snd counts)\<rparr>,
                       saveAssistantMessage e cid chatMessage (Some normalizedMovie) userId st2))
              | (None, st2) \<Rightarrow>
                  (case generateRecommendation e normalizedMovie cid st2 of
                     (rec, st3) \<Rightarrow>
                       (let st4 = saveRecommendation e normalizedMovie rec userId st3;
                            isRepeatedMovie =
                              (case conversationStore st4 cid of
                                 None \<Rightarrow> False
                               | Some c \<Rightarrow> list_ex (\<lambda>m. toLowerCase (d_title m) = toLowerCase (title normalizedMovie))
                                            (discussedMovies c));
                            assistantMessage =
                              (if isRepeatedMovie then
                                 ''Here'' @ apos @ ''s the detailed recommendation for '' @ dquote
                                 @ title normalizedMovie @ dquote @ '' again.''
                               else ''Great choice! Here'' @ apos @ ''s my detailed take on '' @ dquote
                                 @ title normalizedMovie @ dquote @ '' ('' @ year normalizedMovie @ '').'');
                            st5 = saveAssistantMessage e cid assistantMessage (Some normalizedMovie) userId st4;
                            counts = currentCounts cid st5
                        in (\<lparr>res_message = assistantMessage, res_movie = Some normalizedMovie,
                             res_recommendation = Some \<lparr>rr_id = rec_id rec, rr_movie_id = m_id normalizedMovie,
                                rr_recommendation = recommendation rec, rr_worth_watching = worth_watching rec,
                                rr_created_at = rec_created_at rec\<rparr>,
                             res_conversation = Some (fst counts + 1, snd counts + tokensUsed rec)\<rparr>,
                            st5)))))"

text \<open>Steps 4 to 6: the titles, the replies that end the turn early, the lookup.\<close>

definition movieQuery :: "env \<Rightarrow> ChainContext \<Rightarrow> chain \<Rightarrow> response \<times> chain" where
  "movieQuery e cx st =
     (let cid = cx_conversationId cx;
          userId = cx_userId cx;
          q = cx_query cx
      in case extractMovieTitles e q cid st of
           (movieTitles, st1) \<Rightarrow>
             (case movieTitles of
                [] \<Rightarrow>
                  (let fallbackResponse = noTitleResponse q (conversationStore st1 cid)
                   in (reply fallbackResponse, saveAssistantMessage e cid fallbackResponse None userId st1))
              | t # _ \<Rightarrow>
                  if antiRepetition q movieTitles (conversationStore st1 cid) then
                    (reply (clarificationResponse t),
                     saveAssistantMessage e cid (clarificationResponse t) None userId st1)
                  else
                   (case lookupMovie e movieTitles userId st1 of
                      (None, st2) \<Rightarrow>
                        (let msg = notFoundResponse q t (conversationStore st2 cid)
                         in (reply msg, saveAssistantMessage e cid msg None userId st2))
                    | (Some movieData, st2) \<Rightarrow> recommendMovie e cx movieData st2)))"

text \<open>
  \<^verbatim>\<open>processQuery\<close>: steps 1 to 3, then the conversational reply or the movie path.
  Every failure of a collaborator is a value of the environment and is handled where
  the source catches it, so the outer \<^verbatim>\<open>catch\<close> has no case here.
\<close>

definition processQuery :: "env \<Rightarrow> ChainContext \<Rightarrow> chain \<Rightarrow> response \<times> chain" where
  "processQuery e cx st =
     (let st1 = loadConversation e (cx_conversationId cx) st;
          st2 = st1\<lparr>conversationStore :=
                  saveUserMessage (clock e) (cx_conversationId cx) (cx_query cx) (conversationStore st1)\<rparr>
      in if detectGeneralConversation (cx_query cx) then handleGeneralConversation e cx st2
         else movieQuery e cx st2)"


section \<open>Predicates and concrete inputs of the properties\<close>

text \<open>The test by which \<^verbatim>\<open>getSimilarMoviesByGenre\<close> picks an entry of the genre table.\<close>

definition genreMatches :: "string \<Rightarrow> string \<times> string list \<Rightarrow> bool" where
  "genreMatches lowerGenre entry =
     (includesStr lowerGenre (toLowerCase (fst entry)) \<or> includesStr (toLowerCase (fst entry)) lowerGenre)"

text \<open>
  What a turn of a guest may change: the movie and recommendation tables stay as
  they are, and the requests sent to the store touch the conversation table or read
  the recommendation table.
\<close>

definition guestFrame :: "chain \<Rightarrow> chain \<Rightarrow> bool" where
  "guestFrame st st' =
     (moviesTable st' = moviesTable st \<and> recommendationsTable st' = recommendationsTable st
      \<and> (\<exists>ops. dbCalls st' = dbCalls st @ ops
            \<and> set ops \<subseteq> {SelectConversation, UpsertConversation, SelectRecommendations}))"

text \<open>
  An environment in which every language-model call fails, the store never fails and
  the catalog knows no movie; an empty chain; and a chain whose conversation
  \<^verbatim>\<open>c1\<close> has seen \<open>n\<close> user messages.
\<close>

definition quietEnv :: env where
  "quietEnv = \<lparr>clock = 0, isoTime = ''2025-06-05T07:07:47.000Z'', newId = (\<lambda>n. ''id''), random = (\<lambda>n. 0),
     dbFails = (\<lambda>n. False), titleModel = LlmError, recommendationModel = LlmError,
     conversationModel = LlmError, catalog = (\<lambda>titles. None)\<rparr>"

definition emptyChain :: chain where
  "emptyChain = \<lparr>conversationStore = Map.empty, moviesTable = [], recommendationsTable = [],
     conversationsTable = Map.empty, dbCalls = []\<rparr>"

definition afterUserTurns :: "nat \<Rightarrow> chain" where
  "afterUserTurns n = emptyChain\<lparr>conversationStore :=
     ((saveUserMessage 0 ''c1'' ''hello'') ^^ n) [''c1'' \<mapsto> newConversation]\<rparr>"

definition messageCount :: "chain \<Rightarrow> string \<Rightarrow> nat option" where
  "messageCount st cid = map_option (\<lambda>c. length (messages c)) (conversationStore st cid)"

text \<open>A movie record, the catalog's answer it comes from, and an environment that finds it.\<close>

definition sampleMovie :: movie where
  "sampleMovie = \<lparr>m_id = ''m1'', title = ''Heat'', year = ''1995'', imdbID = ''tt0113277'', poster = [],
     imdbRating = Some ''8.5'', imdbVotes = ''700,000'', plot = [], director = ''Michael Mann'',
     actors = ''Al Pacino, Robert De Niro'', genre = Some ''Action, Crime, Drama'', created_at = []\<rparr>"

definition heatAnswer :: omdbMovie where
  "heatAnswer = \<lparr>o_Title = ''Heat'', o_Year = ''1995'', o_imdbID = ''tt0113277'', o_Poster = [],
     o_imdbRating = ''8.3'', o_imdbVotes = ''700,000'', o_Plot = [], o_Director = ''Michael Mann'',
     o_Actors = ''Al Pacino, Robert De Niro'', o_Genre = ''Action, Crime, Drama''\<rparr>"

definition heatEnv :: env where
  "heatEnv = quietEnv\<lparr>titleModel := LlmText (Some ''Heat'') 15,
     recommendationModel := LlmText (Some ''A tense, patient crime epic.'') 80,
     catalog := (\<lambda>titles. Some heatAnswer)\<rparr>"

definition guestContext :: ChainContext where
  "guestContext = \<lparr>cx_userId = None, cx_query = ''How was Heat'', cx_conversationId = ''c1'', cx_sessionId = ''s1''\<rparr>"

definition userContext :: ChainContext where
  "userContext = \<lparr>cx_userId = Some ''u1'', cx_query = ''How was Heat'', cx_conversationId = ''c1'', cx_sessionId = ''s1''\<rparr>"

text \<open>A conversation whose only discussed movie is \<^verbatim>\<open>Wonder Woman\<close>.\<close>

definition wonderWoman :: ConversationMemory where
  "wonderWoman = newConversation\<lparr>discussedMovies :=
     [\<lparr>d_title = ''Wonder Woman'', d_genre = Some ''Action'', d_rating = Some ''7.3''\<rparr>]\<rparr>"

definition wonderWomanChain :: chain where
  "wonderWomanChain = emptyChain\<lparr>conversationStore := [''c1'' \<mapsto> wonderWoman]\<rparr>"

text \<open>A text of 651 characters whose only full stop is at index 250.\<close>

definition longText :: string where
  "longText = replicate 250 CHR ''a'' @ ''.'' @ replicate 400 CHR ''b''"

section \<open>Properties of the conversation memory\<close>

lemma sliceLast_length: "length (sliceLast n xs) = min n (length xs)"
  by (simp add: sliceLast_def)

lemma sliceLast_suffix: "\<exists>ys. xs = ys @ sliceLast n xs"
  by (metis append_take_drop_id sliceLast_def)

text \<open>After a user message is saved the conversation holds at most ten messages.\<close>

lemma saveUserMessage_bound:
  "saveUserMessage now cid msg store cid = Some c \<Longrightarrow> length (messages c) \<le> 10"
  by (auto simp: saveUserMessage_def Let_def sliceLast_length split: option.splits if_splits)

text \<open>A discussed movie keeps the list at five entries at most, dropping the oldest.\<close>

lemma addMovie_bound: "length (discussedMovies (addMovie m c)) = min 5 (Suc (length (discussedMovies c)))"
  by (simp add: addMovie_def Let_def sliceLast_length)

text \<open>An assistant message always makes the message list one longer: nothing is evicted.\<close>

lemma pushAssistant_length:
  "length (messages (pushAssistant now msg movieData c)) = Suc (length (messages c))"
  by (cases movieData) (simp_all add: pushAssistant_def addMovie_def Let_def)

text \<open>
  Claim C4 (the message list never exceeds ten entries after a save). The code of
  \<^verbatim>\<open>saveUserMessage\<close> keeps the bound: eleven user messages leave ten. The code of
  \<^verbatim>\<open>saveAssistantMessage\<close> pushes without the cut that its sibling makes: after ten
  user messages the assistant's reply leaves eleven messages in the memory.
\<close>

theorem C4_assistant_save_exceeds_ten:
  "messageCount (afterUserTurns 11) ''c1'' = Some 10
   \<and> messageCount (afterUserTurns 10) ''c1'' = Some 10
   \<and> messageCount (saveAssistantMessage quietEnv ''c1'' ''reply'' None None (afterUserTurns 10)) ''c1'' = Some 11"
  by (simp add: messageCount_def afterUserTurns_def emptyChain_def newConversation_def saveUserMessage_def
        eval_nat_numeral sliceLast_def saveAssistantMessage_def pushAssistant_def
        saveConversationToDatabase_def dbCall_def dbFailed_def quietEnv_def Let_def)

section \<open>Properties of the classifier\<close>

text \<open>
  Claim C2 (a query that matches a comparison pattern is classified as general
  conversation). \<^verbatim>\<open>which is better\<close> and \<^verbatim>\<open>Forrest Gump or The Pianist\<close> match a
  comparison pattern, yet the classifier answers \<open>False\<close>: the movie-query pattern for
  bare titles matches them too and is tried first.
\<close>

theorem C2_comparison_sent_to_title_resolution:
  "list_ex (\<lambda>p. test p (trim ''which is better'')) comparisonPatterns
   \<and> \<not> detectGeneralConversation ''which is better''
   \<and> list_ex (\<lambda>p. test p (trim ''Forrest Gump or The Pianist'')) comparisonPatterns
   \<and> \<not> detectGeneralConversation ''Forrest Gump or The Pianist''"
  by code_simp

text \<open>
  Where no movie-query pattern matches, the comparison patterns do decide: such a
  query is general conversation.
\<close>

lemma comparison_general_unless_movie_query:
  assumes "\<not> list_ex (\<lambda>pattern. test pattern (trim query)) movieQueryPatterns"
    and "list_ex (\<lambda>pattern. test pattern (trim query)) comparisonPatterns"
  shows "detectGeneralConversation query"
  using assms by (simp add: detectGeneralConversation_def Let_def)

text \<open>
  Claim C3 (the bare tokens yes, yeah, yep, sure, no, nope are classified as general
  conversation). The classifier takes no conversation memory, and it answers
  \<open>False\<close> for each of the six tokens: each of them matches the movie-query pattern
  for bare titles, which returns before the check for simple responses is reached.
\<close>

theorem C3_bare_tokens_sent_to_title_resolution:
  "map detectGeneralConversation [''yes'', ''yeah'', ''yep'', ''sure'', ''no'', ''nope'']
     = [False, False, False, False, False, False]"
  by code_simp

section \<open>Properties of the recommendation generator\<close>

lemma generate_worth:
  "worth_watching (fst (generateRecommendation e movieData cid st)) = worthWatchingOf movieData"
  by (cases "recommendationModel e") (simp_all add: generateRecommendation_def Let_def)

lemma rating_85: "atLeast7 (parseFloat ''8.5'')"
  by code_simp

lemma rating_69: "\<not> atLeast7 (parseFloat ''6.9'')"
  by code_simp

lemma rating_0: "\<not> atLeast7 (parseFloat ''0'')"
  by code_simp

text \<open>
  Claim C1. On the generated path and on the failure path alike, \<open>worth_watching\<close>
  is the comparison \<^verbatim>\<open>parseFloat(rating || '0') >= 7.0\<close>: true for the rating 8.5,
  false for 6.9, false for a missing rating and false for a rating that does not
  parse to a number.
\<close>

theorem C1_worth_watching_threshold:
  "worth_watching (fst (generateRecommendation (e\<lparr>recommendationModel := LlmText txt used\<rparr>) movieData cid st))
     = atLeast7 (parseFloat (orElse (imdbRating movieData) ''0''))
   \<and> worth_watching (fst (generateRecommendation (e\<lparr>recommendationModel := LlmError\<rparr>) movieData cid st))
     = atLeast7 (parseFloat (orElse (imdbRating movieData) ''0''))
   \<and> (imdbRating movieData = Some ''8.5'' \<longrightarrow> worth_watching (fst (generateRecommendation e movieData cid st)))
   \<and> (imdbRating movieData = Some ''6.9'' \<longrightarrow> \<not> worth_watching (fst (generateRecommendation e movieData cid st)))
   \<and> (imdbRating movieData = None \<longrightarrow> \<not> worth_watching (fst (generateRecommendation e movieData cid st)))
   \<and> (imdbRating movieData = Some s \<and> parseFloat s = NaN \<longrightarrow>
        \<not> worth_watching (fst (generateRecommendation e movieData cid st)))"
proof -
  have a: "imdbRating movieData = Some ''8.5'' \<Longrightarrow> worthWatchingOf movieData"
    using rating_85 by (simp add: worthWatchingOf_def orElse_def)
  have b: "imdbRating movieData = Some ''6.9'' \<Longrightarrow> \<not> worthWatchingOf movieData"
    using rating_69 by (simp add: worthWatchingOf_def orElse_def)
  have c: "imdbRating movieData = None \<Longrightarrow> \<not> worthWatchingOf movieData"
    using rating_0 by (simp add: worthWatchingOf_def orElse_def)
  have d: "imdbRating movieData = Some s \<Longrightarrow> parseFloat s = NaN \<Longrightarrow> \<not> worthWatchingOf movieData"
    using rating_0 by (simp add: worthWatchingOf_def orElse_def atLeast7_def)
  show ?thesis
    using a b c d by (simp add: generate_worth) (simp add: worthWatchingOf_def)
qed

text \<open>Witness of C1: the sample movie has the rating 8.5 and is worth watching.\<close>

theorem C1_worth_watching_threshold_witness:
  "imdbRating sampleMovie = Some ''8.5''
   \<and> worth_watching (fst (generateRecommendation quietEnv sampleMovie ''c1'' emptyChain))"
proof -
  have h: "imdbRating sampleMovie = Some ''8.5''" by (simp add: sampleMovie_def)
  have "imdbRating sampleMovie = Some ''8.5'' \<longrightarrow>
          worth_watching (fst (generateRecommendation quietEnv sampleMovie ''c1'' emptyChain))"
    using C1_worth_watching_threshold [where e = quietEnv and movieData = sampleMovie and cid = "''c1''" and st = emptyChain]
    by blast
  with h show ?thesis by blast
qed

subsection \<open>The truncation\<close>

lemma lastIndexFrom_cases:
  "(lastIndexFrom c xs i acc = acc \<and> c \<notin> set xs)
   \<or> (\<exists>j<length xs. lastIndexFrom c xs i acc = int (i + j) \<and> xs ! j = c
         \<and> (\<forall>k. j < k \<and> k < length xs \<longrightarrow> xs ! k \<noteq> c))"
proof (induction xs arbitrary: i acc)
  case Nil
  then show ?case by simp
next
  case (Cons x xs)
  let ?acc = "if x = c then int i else acc"
  from Cons.IH [of "Suc i" ?acc]
  show ?case
  proof
    assume a: "lastIndexFrom c xs (Suc i) ?acc = ?acc \<and> c \<notin> set xs"
    show ?thesis
    proof (cases "x = c")
      case True
      have "\<forall>k. 0 < k \<and> k < length (x # xs) \<longrightarrow> (x # xs) ! k \<noteq> c"
        using a by (auto simp: nth_Cons split: nat.splits)
      with a True show ?thesis by (intro disjI2 exI [of _ 0]) auto
    next
      case False
      with a show ?thesis by auto
    qed
  next
    assume "\<exists>j<length xs. lastIndexFrom c xs (Suc i) ?acc = int (Suc i + j) \<and> xs ! j = c
         \<and> (\<forall>k. j < k \<and> k < length xs \<longrightarrow> xs ! k \<noteq> c)"
    then obtain j where j: "j < length xs" "lastIndexFrom c xs (Suc i) ?acc = int (Suc i + j)" "xs ! j = c"
      "\<forall>k. j < k \<and> k < length xs \<longrightarrow> xs ! k \<noteq> c" by blast
    have "\<forall>k. Suc j < k \<and> k < length (x # xs) \<longrightarrow> (x # xs) ! k \<noteq> c"
      using j(4) by (auto simp: nth_Cons split: nat.splits)
    with j show ?thesis by (intro disjI2 exI [of _ "Suc j"]) auto
  qed
qed

text \<open>\<^verbatim>\<open>lastIndexOf\<close> is \<open>-1\<close> without an occurrence and the last occurrence otherwise.\<close>

lemma lastIndexOf_cases:
  "(lastIndexOf s c = - 1 \<and> c \<notin> set s)
   \<or> (\<exists>j<length s. lastIndexOf s c = int j \<and> s ! j = c \<and> (\<forall>k. j < k \<and> k < length s \<longrightarrow> s ! k \<noteq> c))"
  using lastIndexFrom_cases [of c s 0 "- 1"] by (simp add: lastIndexOf_def)

lemma truncate_length: "length (truncateRecommendation t) \<le> 600"
proof (cases "length t > 600")
  case False
  then show ?thesis by (simp add: truncateRecommendation_def)
next
  case True
  then show ?thesis
    by (simp add: truncateRecommendation_def Let_def)
qed

lemma truncate_at_stop:
  assumes len: "length t > 600" and ex: "\<exists>k. 200 < k \<and> k < 600 \<and> t ! k = CHR ''.''"
  shows "\<exists>k. 200 < k \<and> k < 600 \<and> t ! k = CHR ''.'' \<and> (\<forall>j. k < j \<and> j < 600 \<longrightarrow> t ! j \<noteq> CHR ''.'')
            \<and> truncateRecommendation t = take (Suc k) t"
proof -
  let ?cut = "take 600 t"
  have lc: "length ?cut = 600" using len by simp
  from ex obtain k0 where k0: "200 < k0" "k0 < 600" "t ! k0 = CHR ''.''" by blast
  then have "?cut ! k0 = CHR ''.''" by simp
  then have inset: "CHR ''.'' \<in> set ?cut" using k0(2) lc by (metis nth_mem)
  from lastIndexOf_cases [of ?cut "CHR ''.''"] inset
  obtain j where j: "j < length ?cut" "lastIndexOf ?cut CHR ''.'' = int j" "?cut ! j = CHR ''.''"
     "\<forall>k. j < k \<and> k < length ?cut \<longrightarrow> ?cut ! k \<noteq> CHR ''.''" by blast
  have jk: "k0 \<le> j"
  proof (rule ccontr)
    assume "\<not> k0 \<le> j"
    then have "j < k0 \<and> k0 < length ?cut" using k0 lc by simp
    with j(4) have "?cut ! k0 \<noteq> CHR ''.''" by blast
    with \<open>?cut ! k0 = CHR ''.''\<close> show False by simp
  qed
  have j600: "j < 600" using j(1) lc by simp
  have later: "\<forall>i. j < i \<and> i < 600 \<longrightarrow> t ! i \<noteq> CHR ''.''"
  proof (intro allI impI)
    fix i assume i: "j < i \<and> i < 600"
    then have "j < i \<and> i < length ?cut" using lc by simp
    with j(4) have "?cut ! i \<noteq> CHR ''.''" by blast
    then show "t ! i \<noteq> CHR ''.''" using i by simp
  qed
  have tj: "t ! j = CHR ''.''" using j(3) j600 by simp
  have "truncateRecommendation t = take (Suc j) t"
    using len j(2) jk k0(1) j600 by (simp add: truncateRecommendation_def Let_def nat_add_distrib min_def)
  with jk k0(1) j600 tj later show ?thesis by (intro exI [of _ j]) auto
qed

lemma truncate_hard:
  assumes len: "length t > 600" and no: "\<forall>k. 200 < k \<and> k < 600 \<longrightarrow> t ! k \<noteq> CHR ''.''"
  shows "truncateRecommendation t = take 597 t @ ''...''"
proof -
  let ?cut = "take 600 t"
  have lc: "length ?cut = 600" using len by simp
  have "lastIndexOf ?cut CHR ''.'' \<le> 200"
  proof -
    from lastIndexOf_cases [of ?cut "CHR ''.''"]
    show ?thesis
    proof
      assume "lastIndexOf ?cut CHR ''.'' = - 1 \<and> CHR ''.'' \<notin> set ?cut"
      then show ?thesis by simp
    next
      assume "\<exists>j<length ?cut. lastIndexOf ?cut CHR ''.'' = int j \<and> ?cut ! j = CHR ''.''
                \<and> (\<forall>k. j < k \<and> k < length ?cut \<longrightarrow> ?cut ! k \<noteq> CHR ''.'')"
      then obtain j where j: "j < length ?cut" "lastIndexOf ?cut CHR ''.'' = int j" "?cut ! j = CHR ''.''" by blast
      then have "t ! j = CHR ''.''" "j < 600" using lc by simp_all
      with no have "j \<le> 200" by (meson not_le_imp_less)
      with j(2) show ?thesis by simp
    qed
  qed
  then show ?thesis using len by (simp add: truncateRecommendation_def Let_def)
qed

text \<open>
  Claim C8. A generated text \<open>t\<close> of more than 600 characters is cut after its last
  full stop among the first 600 characters when that stop lies at an index above 200,
  and is otherwise cut to 597 characters followed by an ellipsis; the stored text, the
  trimmed answer of the model after this cut, never has more than 600 characters.
\<close>

theorem C8_truncation:
  "(600 < length t \<longrightarrow>
      ((\<exists>k. 200 < k \<and> k < 600 \<and> t ! k = CHR ''.'') \<longrightarrow>
         (\<exists>k. 200 < k \<and> k < 600 \<and> t ! k = CHR ''.'' \<and> (\<forall>j. k < j \<and> j < 600 \<longrightarrow> t ! j \<noteq> CHR ''.'')
              \<and> truncateRecommendation t = take (Suc k) t))
      \<and> ((\<forall>k. 200 < k \<and> k < 600 \<longrightarrow> t ! k \<noteq> CHR ''.'') \<longrightarrow> truncateRecommendation t = take 597 t @ ''...''))
   \<and> length (truncateRecommendation t) \<le> 600
   \<and> (recommendationModel e = LlmText txt used \<longrightarrow>
        recommendation (fst (generateRecommendation e movieData cid st))
          = truncateRecommendation (case txt of None \<Rightarrow> [] | Some x \<Rightarrow> trim x)
        \<and> length (recommendation (fst (generateRecommendation e movieData cid st))) \<le> 600)"
  using truncate_at_stop [of t] truncate_hard [of t] truncate_length
  by (auto simp: generateRecommendation_def Let_def)

text \<open>
  Witness of C8: the long text has 651 characters and a full stop at index 250, and
  it is cut after that stop.
\<close>

theorem C8_truncation_witness:
  "600 < length longText \<and> longText ! 250 = CHR ''.''
   \<and> (\<exists>k. 200 < k \<and> k < 600 \<and> longText ! k = CHR ''.'' \<and> truncateRecommendation longText = take (Suc k) longText)
   \<and> length (truncateRecommendation longText) \<le> 600"
proof -
  have len: "600 < length longText" by (simp add: longText_def)
  have stop: "longText ! 250 = CHR ''.''" by (simp add: longText_def nth_append)
  then have ex: "\<exists>k. 200 < k \<and> k < 600 \<and> longText ! k = CHR ''.''" by (intro exI [of _ 250]) simp
  from C8_truncation [of longText] len ex
  have "\<exists>k. 200 < k \<and> k < 600 \<and> longText ! k = CHR ''.'' \<and> (\<forall>j. k < j \<and> j < 600 \<longrightarrow> longText ! j \<noteq> CHR ''.'')
              \<and> truncateRecommendation longText = take (Suc k) longText"
    and "length (truncateRecommendation longText) \<le> 600"
    by blast+
  with len stop show ?thesis by blast
qed

subsection \<open>The fallback\<close>

lemma mset_insertRandom: "mset (insertRandom rnd k x ys) = add_mset x (mset ys)"
  by (induction ys arbitrary: k) simp_all

text \<open>Whatever the draws, the shuffle permutes its argument.\<close>

lemma mset_sortRandom: "mset (sortRandom rnd k xs) = mset xs"
  by (induction xs arbitrary: k) (simp_all add: mset_insertRandom)

lemma sortRandom_props:
  "set (sortRandom rnd k xs) = set xs" "length (sortRandom rnd k xs) = length xs"
  "distinct (sortRandom rnd k xs) = distinct xs"
  using mset_sortRandom [of rnd k xs] by (metis set_mset_mset, metis size_mset, metis mset_eq_imp_distinct_iff)

lemma genreMovies_shape: "list_all (\<lambda>entry. length (snd entry) = 4 \<and> distinct (snd entry)) genreMovies"
  by (simp add: genreMovies_def apos_def)

lemma genreMovies_count: "length genreMovies = 15"
  by (simp add: genreMovies_def)

lemma popular_shape: "length popularMovies = 3 \<and> distinct popularMovies"
  by (simp add: popularMovies_def)

text \<open>The loop over the genre table takes the first entry that matches, if there is one.\<close>

lemma similarLoop_find:
  "similarLoop rnd g tbl =
     (case find (genreMatches g) tbl of
        None \<Rightarrow> popularMovies
      | Some entry \<Rightarrow> take 3 (sortRandom rnd 0 (snd entry)))"
  by (induction tbl) (auto simp: genreMatches_def)

lemma find_genre_shape:
  "find (genreMatches g) genreMovies = Some entry \<Longrightarrow>
     entry \<in> set genreMovies \<and> length (snd entry) = 4 \<and> distinct (snd entry)"
proof -
  assume f: "find (genreMatches g) genreMovies = Some entry"
  then have "entry \<in> set genreMovies"
    by (metis find_Some_iff nth_mem)
  with genreMovies_shape show ?thesis by (simp add: list_all_iff)
qed

lemma similar_shape:
  "length (getSimilarMoviesByGenre rnd g) = 3 \<and> distinct (getSimilarMoviesByGenre rnd g)
   \<and> (case find (genreMatches (toLowerCase g)) genreMovies of
         None \<Rightarrow> getSimilarMoviesByGenre rnd g = popularMovies
       | Some entry \<Rightarrow> entry \<in> set genreMovies \<and> set (getSimilarMoviesByGenre rnd g) \<subseteq> set (snd entry))"
proof (cases "find (genreMatches (toLowerCase g)) genreMovies")
  case None
  then show ?thesis using popular_shape by (simp add: getSimilarMoviesByGenre_def similarLoop_find)
next
  case (Some entry)
  from find_genre_shape [OF Some]
  have e: "entry \<in> set genreMovies" "length (snd entry) = 4" "distinct (snd entry)" by simp_all
  have "set (take 3 (sortRandom rnd 0 (snd entry))) \<subseteq> set (snd entry)"
    by (metis set_take_subset sortRandom_props(1))
  with e Some show ?thesis
    by (simp add: getSimilarMoviesByGenre_def similarLoop_find sortRandom_props)
qed

text \<open>
  Claim C6. When the recommendation chain fails, \<^verbatim>\<open>generateRecommendation\<close> returns
  a record with all its fields and leaves the state as it is. Its text is the
  template, with the quality phrase chosen by the rating threshold and with three
  distinct similar titles: titles of one entry of the genre table of fifteen
  entries when the genre matches one, and the three fixed popular titles otherwise.
  A failure of the chain is the value \<open>LlmError\<close>, and the function has a result
  for it: nothing is thrown.
\<close>

theorem C6_fallback_complete:
  "recommendationModel e = LlmError \<longrightarrow>
     (\<exists>sim. generateRecommendation e movieData cid st =
          (\<lparr>rec_id = newId e 0, movie_id = m_id movieData, recommendation = fallbackText movieData sim,
            worth_watching = atLeast7 (parseFloat (orElse (imdbRating movieData) ''0'')),
            rec_created_at = isoTime e, tokensUsed = 0\<rparr>, st)
        \<and> length sim = 3 \<and> distinct sim
        \<and> (case find (genreMatches (toLowerCase (orElse (genre movieData) ''Drama''))) genreMovies of
              None \<Rightarrow> sim = popularMovies
            | Some entry \<Rightarrow> entry \<in> set genreMovies \<and> set sim \<subseteq> set (snd entry))
        \<and> fallbackText movieData sim =
            dquote @ title movieData @ dquote @ '' ('' @ year movieData @ '') - ''
            @ (if atLeast7 (parseFloat (orElse (imdbRating movieData) ''0''))
               then ''Worth watching with solid ratings and engaging content.''
               else ''Consider carefully as ratings suggest mixed reception.'')
            @ '' Appeals to fans of '' @ (case genre movieData of None \<Rightarrow> ''undefined'' | Some g \<Rightarrow> g)
            @ '' cinema and those seeking ''
            @ (if atLeast7 (parseFloat (orElse (imdbRating movieData) ''0''))
               then ''quality entertainment'' else ''alternative viewing'')
            @ ''. Similar movies: '' @ join '', '' sim @ ''.'')
     \<and> length genreMovies = 15 \<and> length popularMovies = 3"
proof (intro impI conjI)
  assume err: "recommendationModel e = LlmError"
  let ?sim = "getSimilarMoviesByGenre (random e) (orElse (genre movieData) ''Drama'')"
  have gen: "generateRecommendation e movieData cid st =
          (\<lparr>rec_id = newId e 0, movie_id = m_id movieData, recommendation = fallbackText movieData ?sim,
            worth_watching = atLeast7 (parseFloat (orElse (imdbRating movieData) ''0'')),
            rec_created_at = isoTime e, tokensUsed = 0\<rparr>, st)"
    using err by (simp add: generateRecommendation_def Let_def worthWatchingOf_def)
  note shape = similar_shape [of "random e" "orElse (genre movieData) ''Drama''"]
  have tx: "fallbackText movieData ?sim =
            dquote @ title movieData @ dquote @ '' ('' @ year movieData @ '') - ''
            @ (if atLeast7 (parseFloat (orElse (imdbRating movieData) ''0''))
               then ''Worth watching with solid ratings and engaging content.''
               else ''Consider carefully as ratings suggest mixed reception.'')
            @ '' Appeals to fans of '' @ (case genre movieData of None \<Rightarrow> ''undefined'' | Some g \<Rightarrow> g)
            @ '' cinema and those seeking ''
            @ (if atLeast7 (parseFloat (orElse (imdbRating movieData) ''0''))
               then ''quality entertainment'' else ''alternative viewing'')
            @ ''. Similar movies: '' @ join '', '' ?sim @ ''.''"
    using shape by (simp add: fallbackText_def Let_def worthWatchingOf_def)
  from gen shape tx
  show "\<exists>sim. generateRecommendation e movieData cid st =
          (\<lparr>rec_id = newId e 0, movie_id = m_id movieData, recommendation = fallbackText movieData sim,
            worth_watching = atLeast7 (parseFloat (orElse (imdbRating movieData) ''0'')),
            rec_created_at = isoTime e, tokensUsed = 0\<rparr>, st)
        \<and> length sim = 3 \<and> distinct sim
        \<and> (case find (genreMatches (toLowerCase (orElse (genre movieData) ''Drama''))) genreMovies of
              None \<Rightarrow> sim = popularMovies
            | Some entry \<Rightarrow> entry \<in> set genreMovies \<and> set sim \<subseteq> set (snd entry))
        \<and> fallbackText movieData sim =
            dquote @ title movieData @ dquote @ '' ('' @ year movieData @ '') - ''
            @ (if atLeast7 (parseFloat (orElse (imdbRating movieData) ''0''))
               then ''Worth watching with solid ratings and engaging content.''
               else ''Consider carefully as ratings suggest mixed reception.'')
            @ '' Appeals to fans of '' @ (case genre movieData of None \<Rightarrow> ''undefined'' | Some g \<Rightarrow> g)
            @ '' cinema and those seeking ''
            @ (if atLeast7 (parseFloat (orElse (imdbRating movieData) ''0''))
               then ''quality entertainment'' else ''alternative viewing'')
            @ ''. Similar movies: '' @ join '', '' sim @ ''.''"
    by (intro exI [of _ ?sim]) blast
next
  show "length genreMovies = 15" by (rule genreMovies_count)
next
  show "length popularMovies = 3" using popular_shape by simp
qed

text \<open>
  Witness of C6: in the quiet environment the recommendation chain fails, and the
  sample movie gets a complete record with three similar titles.
\<close>

theorem C6_fallback_complete_witness:
  "recommendationModel quietEnv = LlmError
   \<and> (\<exists>sim. length sim = 3
         \<and> generateRecommendation quietEnv sampleMovie ''c1'' emptyChain =
             (\<lparr>rec_id = newId quietEnv 0, movie_id = m_id sampleMovie,
               recommendation = fallbackText sampleMovie sim,
               worth_watching = atLeast7 (parseFloat (orElse (imdbRating sampleMovie) ''0'')),
               rec_created_at = isoTime quietEnv, tokensUsed = 0\<rparr>, emptyChain))"
proof -
  have h: "recommendationModel quietEnv = LlmError" by (simp add: quietEnv_def)
  with C6_fallback_complete [of quietEnv sampleMovie "''c1''" emptyChain]
  show ?thesis by blast
qed

lemma similar_low:
  "getSimilarMoviesByGenre (\<lambda>n. 0) ''Action, Crime, Drama'' = [''Terminator 2'', ''The Dark Knight'', ''Mad Max: Fury Road'']"
  by (simp add: getSimilarMoviesByGenre_def genreMovies_def toLowerCase_def toLowerChar_def code_def)

lemma similar_high:
  "getSimilarMoviesByGenre (\<lambda>n. 9 / 10) ''Action, Crime, Drama'' = [''John Wick'', ''Mad Max: Fury Road'', ''The Dark Knight'']"
  by (simp add: getSimilarMoviesByGenre_def genreMovies_def toLowerCase_def toLowerChar_def code_def)

text \<open>
  Claim C7, as stated, fails: for the same movie and the same memory, two runs of
  the fallback whose draws of \<^verbatim>\<open>Math.random\<close> differ give different texts.
\<close>

theorem C7_fallback_differs_counterexample:
  "recommendation (fst (generateRecommendation (quietEnv\<lparr>random := (\<lambda>n. 0)\<rparr>) sampleMovie ''c1'' emptyChain))
   \<noteq> recommendation (fst (generateRecommendation (quietEnv\<lparr>random := (\<lambda>n. 9 / 10)\<rparr>) sampleMovie ''c1'' emptyChain))"
proof -
  have g: "orElse (genre sampleMovie) ''Drama'' = ''Action, Crime, Drama''"
    by (simp add: sampleMovie_def orElse_def)
  show ?thesis
    by (simp add: generateRecommendation_def quietEnv_def Let_def g similar_low similar_high fallbackText_def)
qed

text \<open>
  Claim C7, amended. Two runs of the fallback on the same movie agree on
  \<open>worth_watching\<close> and on the text up to the similar titles. For a genre that
  matches no entry of the table both list the three fixed popular titles; for a
  genre that matches, each lists three distinct titles of the same entry, in an
  order and a choice that depend on the draws.
\<close>

theorem C7_fallback_same_up_to_shuffle:
  "recommendationModel e = LlmError \<longrightarrow>
     (\<exists>sim1 sim2.
        recommendation (fst (generateRecommendation (e\<lparr>random := rnd1\<rparr>) movieData cid st)) = fallbackText movieData sim1
      \<and> recommendation (fst (generateRecommendation (e\<lparr>random := rnd2\<rparr>) movieData cid st)) = fallbackText movieData sim2
      \<and> length sim1 = 3 \<and> length sim2 = 3 \<and> distinct sim1 \<and> distinct sim2
      \<and> (case find (genreMatches (toLowerCase (orElse (genre movieData) ''Drama''))) genreMovies of
            None \<Rightarrow> sim1 = popularMovies \<and> sim2 = popularMovies
          | Some entry \<Rightarrow> set sim1 \<subseteq> set (snd entry) \<and> set sim2 \<subseteq> set (snd entry)))
     \<and> worth_watching (fst (generateRecommendation (e\<lparr>random := rnd1\<rparr>) movieData cid st))
       = worth_watching (fst (generateRecommendation (e\<lparr>random := rnd2\<rparr>) movieData cid st))"
proof (intro impI conjI)
  assume err: "recommendationModel e = LlmError"
  let ?g = "orElse (genre movieData) ''Drama''"
  have r1: "recommendation (fst (generateRecommendation (e\<lparr>random := rnd1\<rparr>) movieData cid st))
              = fallbackText movieData (getSimilarMoviesByGenre rnd1 ?g)"
    using err by (simp add: generateRecommendation_def Let_def)
  have r2: "recommendation (fst (generateRecommendation (e\<lparr>random := rnd2\<rparr>) movieData cid st))
              = fallbackText movieData (getSimilarMoviesByGenre rnd2 ?g)"
    using err by (simp add: generateRecommendation_def Let_def)
  from r1 r2 similar_shape [of rnd1 ?g] similar_shape [of rnd2 ?g]
  show "\<exists>sim1 sim2.
        recommendation (fst (generateRecommendation (e\<lparr>random := rnd1\<rparr>) movieData cid st)) = fallbackText movieData sim1
      \<and> recommendation (fst (generateRecommendation (e\<lparr>random := rnd2\<rparr>) movieData cid st)) = fallbackText movieData sim2
      \<and> length sim1 = 3 \<and> length sim2 = 3 \<and> distinct sim1 \<and> distinct sim2
      \<and> (case find (genreMatches (toLowerCase (orElse (genre movieData) ''Drama''))) genreMovies of
            None \<Rightarrow> sim1 = popularMovies \<and> sim2 = popularMovies
          | Some entry \<Rightarrow> set sim1 \<subseteq> set (snd entry) \<and> set sim2 \<subseteq> set (snd entry))"
    by (intro exI [of _ "getSimilarMoviesByGenre rnd1 ?g"] exI [of _ "getSimilarMoviesByGenre rnd2 ?g"])
       (auto split: option.splits)
next
  show "worth_watching (fst (generateRecommendation (e\<lparr>random := rnd1\<rparr>) movieData cid st))
       = worth_watching (fst (generateRecommendation (e\<lparr>random := rnd2\<rparr>) movieData cid st))"
    by (simp add: generate_worth)
qed

text \<open>Witness of the amended C7, at the two runs of the counterexample.\<close>

theorem C7_fallback_same_up_to_shuffle_witness:
  "recommendationModel quietEnv = LlmError
   \<and> worth_watching (fst (generateRecommendation (quietEnv\<lparr>random := (\<lambda>n. 0)\<rparr>) sampleMovie ''c1'' emptyChain))
     = worth_watching (fst (generateRecommendation (quietEnv\<lparr>random := (\<lambda>n. 9 / 10)\<rparr>) sampleMovie ''c1'' emptyChain))"
proof -
  have h: "recommendationModel quietEnv = LlmError" by (simp add: quietEnv_def)
  with C7_fallback_same_up_to_shuffle [of quietEnv "\<lambda>n. 0" sampleMovie "''c1''" emptyChain "\<lambda>n. 9 / 10"]
  show ?thesis by blast
qed

section \<open>Properties of the title resolver\<close>

lemma lower_wonder_woman: "toLowerCase ''Wonder Woman'' = ''wonder woman''"
  by code_simp

lemma lower_wonder_woman_1984: "toLowerCase ''Wonder Woman 1984'' = ''wonder woman 1984''"
  by code_simp

lemma base_wonder_woman: "getBaseTitle ''Wonder Woman'' = ''Wonder Woman''"
  by code_simp

lemma findSequel_wonder_woman:
  assumes "\<not> list_ex (\<lambda>prev. toLowerCase (d_title prev) = ''wonder woman 1984'') previousMovies"
    and "d_title lastMovie = ''Wonder Woman''"
  shows "findSequel ''wonder woman'' lastMovie previousMovies sequelMap = Some ''Wonder Woman 1984''"
  using assms by (simp add: sequelMap_def lower_wonder_woman lower_wonder_woman_1984)

lemma contextualLoop_wonder_woman:
  assumes nodirect: "\<not> list_ex (\<lambda>pattern. includesStr lq pattern)
                        [''that movie'', ''that film'', ''it'', ''this movie'', ''this film'']"
    and seq: "includesStr lq ''sequel''"
    and notdisc: "\<not> list_ex (\<lambda>prev. toLowerCase (d_title prev) = ''wonder woman 1984'') previousMovies"
    and last: "d_title lastMovie = ''Wonder Woman''"
  shows "contextualLoop q lq lastMovie previousMovies contextualPatterns = Some ''Wonder Woman 1984''"
proof -
  have h: "handleContext q lq lastMovie previousMovies ps ctx_sequel = Some (Some ''Wonder Woman 1984'')" for ps
    using findSequel_wonder_woman [OF notdisc last] last
    by (simp add: handleContext_def base_wonder_woman lower_wonder_woman)
  show ?thesis
    using nodirect seq by (simp add: contextualPatterns_def h)
qed

text \<open>
  Claim C5, as stated, fails. The last discussed movie is \<^verbatim>\<open>Wonder Woman\<close> and the
  query \<^verbatim>\<open>Wonder Woman sequel\<close> contains the word, yet the contextual resolution
  returns \<^verbatim>\<open>null\<close> without a look at the franchise map, because the query names the
  last movie and asks for a sequel; with the language model failing, the resolver
  then returns the query itself.
\<close>

theorem C5_sequel_counterexample:
  "discussedMovies wonderWoman = [\<lparr>d_title = ''Wonder Woman'', d_genre = Some ''Action'', d_rating = Some ''7.3''\<rparr>]
   \<and> includesStr (trim (toLowerCase ''Wonder Woman sequel'')) ''sequel''
   \<and> handleContextualQueries ''Wonder Woman sequel'' (Some wonderWoman) = None
   \<and> fst (extractMovieTitles quietEnv ''Wonder Woman sequel'' ''c1'' wonderWomanChain) = [''Wonder Woman sequel'']"
proof -
  have a: "discussedMovies wonderWoman
             = [\<lparr>d_title = ''Wonder Woman'', d_genre = Some ''Action'', d_rating = Some ''7.3''\<rparr>]"
    by (simp add: wonderWoman_def newConversation_def)
  have b: "includesStr (trim (toLowerCase ''Wonder Woman sequel'')) ''sequel''" by code_simp
  have c: "handleContextualQueries ''Wonder Woman sequel'' (Some wonderWoman) = None" by code_simp
  have d: "\<not> test directMovieWithSpecifics (trim ''Wonder Woman sequel'')" by code_simp
  have r: "extractTitlesWithRegex ''Wonder Woman sequel'' = [''Wonder Woman sequel'']" by code_simp
  have s: "conversationStore wonderWomanChain ''c1'' = Some wonderWoman"
    by (simp add: wonderWomanChain_def emptyChain_def)
  have m: "titleModel quietEnv = LlmError" by (simp add: quietEnv_def)
  have "fst (extractMovieTitles quietEnv ''Wonder Woman sequel'' ''c1'' wonderWomanChain) = [''Wonder Woman sequel'']"
    by (simp add: extractMovieTitles_def modelExtraction_def c d r s m)
  with a b c show ?thesis by blast
qed

text \<open>
  The direct-reference group is tried before the sequel group and contains the
  pattern \<^verbatim>\<open>it\<close>, which is tested as a substring: \<^verbatim>\<open>its sequel\<close> resolves to the
  last movie itself.
\<close>

lemma its_sequel_is_direct_reference:
  "handleContextualQueries ''its sequel'' (Some wonderWoman) = Some ''Wonder Woman''"
  by code_simp

text \<open>
  Claim C5, amended. The last discussed movie is \<^verbatim>\<open>Wonder Woman\<close>, no earlier
  discussed movie is \<^verbatim>\<open>Wonder Woman 1984\<close>, and the lower-cased, trimmed query
  contains \<^verbatim>\<open>sequel\<close>. If moreover the query does not contain the last title, contains
  none of the direct-reference patterns, has no match of the direct-movie pattern and
  does not match the direct-specific bypass, then the contextual resolution returns
  \<^verbatim>\<open>Wonder Woman 1984\<close> from the franchise map, and so does the resolver, whatever
  the language model would answer.
\<close>

theorem C5_sequel_from_static_map:
  "conversationStore st cid = Some conv
   \<and> discussedMovies conv \<noteq> []
   \<and> d_title (last (discussedMovies conv)) = ''Wonder Woman''
   \<and> \<not> list_ex (\<lambda>prev. toLowerCase (d_title prev) = ''wonder woman 1984'') (butlast (discussedMovies conv))
   \<and> includesStr (trim (toLowerCase q)) ''sequel''
   \<and> \<not> includesStr (trim (toLowerCase q)) ''wonder woman''
   \<and> \<not> list_ex (\<lambda>pattern. includesStr (trim (toLowerCase q)) pattern)
          [''that movie'', ''that film'', ''it'', ''this movie'', ''this film'']
   \<and> rx_match True (snd directMoviePattern) q = None
   \<and> \<not> test directMovieWithSpecifics (trim q)
   \<longrightarrow> handleContextualQueries q (conversationStore st cid) = Some ''Wonder Woman 1984''
       \<and> extractMovieTitles e q cid st = ([''Wonder Woman 1984''], st)"
proof (intro impI, elim conjE)
  assume conv: "conversationStore st cid = Some conv"
    and ne: "discussedMovies conv \<noteq> []"
    and last: "d_title (last (discussedMovies conv)) = ''Wonder Woman''"
    and notdisc: "\<not> list_ex (\<lambda>prev. toLowerCase (d_title prev) = ''wonder woman 1984'') (butlast (discussedMovies conv))"
    and seq: "includesStr (trim (toLowerCase q)) ''sequel''"
    and noww: "\<not> includesStr (trim (toLowerCase q)) ''wonder woman''"
    and noref: "\<not> list_ex (\<lambda>pattern. includesStr (trim (toLowerCase q)) pattern)
          [''that movie'', ''that film'', ''it'', ''this movie'', ''this film'']"
    and nomatch: "rx_match True (snd directMoviePattern) q = None"
    and nobypass: "\<not> test directMovieWithSpecifics (trim q)"
  have fstp: "fst directMoviePattern = True" by (simp add: directMoviePattern_def)
  have loop: "contextualLoop q (trim (toLowerCase q)) (last (discussedMovies conv)) (butlast (discussedMovies conv))
                contextualPatterns = Some ''Wonder Woman 1984''"
    by (rule contextualLoop_wonder_woman [OF noref seq notdisc last])
  have h: "handleContextualQueries q (conversationStore st cid) = Some ''Wonder Woman 1984''"
    using conv ne last noww nomatch loop
    by (simp add: handleContextualQueries_def Let_def fstp lower_wonder_woman)
  then show "handleContextualQueries q (conversationStore st cid) = Some ''Wonder Woman 1984''
       \<and> extractMovieTitles e q cid st = ([''Wonder Woman 1984''], st)"
    using nobypass by (simp add: extractMovieTitles_def)
qed

lemma wonderWoman_store: "conversationStore wonderWomanChain ''c1'' = Some wonderWoman"
  by (simp add: wonderWomanChain_def emptyChain_def)

lemma wonderWoman_last:
  "discussedMovies wonderWoman \<noteq> [] \<and> d_title (last (discussedMovies wonderWoman)) = ''Wonder Woman''
   \<and> butlast (discussedMovies wonderWoman) = []"
  by (simp add: wonderWoman_def newConversation_def)

lemma sequel_query_lower: "trim (toLowerCase ''what is the sequel'') = ''what is the sequel''"
  by code_simp

lemma sequel_query_has_sequel: "includesStr ''what is the sequel'' ''sequel''"
  by code_simp

lemma sequel_query_no_title: "\<not> includesStr ''what is the sequel'' ''wonder woman''"
  by code_simp

lemma sequel_query_no_reference:
  "\<not> list_ex (\<lambda>pattern. includesStr ''what is the sequel'' pattern)
          [''that movie'', ''that film'', ''it'', ''this movie'', ''this film'']"
  by code_simp

lemma sequel_query_no_direct: "rx_match True (snd directMoviePattern) ''what is the sequel'' = None"
  by code_simp

lemma sequel_query_no_bypass: "\<not> test directMovieWithSpecifics (trim ''what is the sequel'')"
  by code_simp

text \<open>Witness of the amended C5: the query \<^verbatim>\<open>what is the sequel\<close> after \<^verbatim>\<open>Wonder Woman\<close>.\<close>

theorem C5_sequel_from_static_map_witness:
  "includesStr (trim (toLowerCase ''what is the sequel'')) ''sequel''
   \<and> d_title (last (discussedMovies wonderWoman)) = ''Wonder Woman''
   \<and> extractMovieTitles quietEnv ''what is the sequel'' ''c1'' wonderWomanChain = ([''Wonder Woman 1984''], wonderWomanChain)"
  using C5_sequel_from_static_map [where st = wonderWomanChain and cid = "''c1''" and conv = wonderWoman
      and q = "''what is the sequel''" and e = quietEnv]
    wonderWoman_store wonderWoman_last sequel_query_lower sequel_query_has_sequel sequel_query_no_title
    sequel_query_no_reference sequel_query_no_direct sequel_query_no_bypass
  by simp

text \<open>
  Claim C9, as stated, fails. \<^verbatim>\<open>28 Days Later 2002\<close> is words followed by a
  four-digit year, and so is \<^verbatim>\<open>Dune 3021\<close>, but the bypass pattern wants a first
  letter and a year that starts with 19 or 20: neither query is bypassed, the later
  strategies run, and the resolver returns what the language model answers.
\<close>

theorem C9_bypass_counterexample:
  "\<not> test directMovieWithSpecifics (trim ''28 Days Later 2002'')
   \<and> fst (extractMovieTitles (quietEnv\<lparr>titleModel := LlmText (Some ''28 Days Later'') 20\<rparr>)
            ''28 Days Later 2002'' ''c1'' emptyChain) = [''28 Days Later'']
   \<and> \<not> test directMovieWithSpecifics (trim ''Dune 3021'')
   \<and> fst (extractMovieTitles (quietEnv\<lparr>titleModel := LlmText (Some ''Dune'') 20\<rparr>)
            ''Dune 3021'' ''c1'' emptyChain) = [''Dune'']"
  by code_simp

text \<open>
  Claim C9, amended. A query whose trimmed text matches the bypass pattern of the
  source (a title that starts with a letter and goes on with letters, white space,
  colons, apostrophes and hyphens, then white space, then either a year 19dd or 20dd
  or the word \<^verbatim>\<open>with\<close> and a name of letters and white space) is returned verbatim,
  trimmed, as the only candidate; the memory, the language model and the regex
  fallback are not consulted and the state is unchanged.
\<close>

theorem C9_bypass_returns_query:
  "test directMovieWithSpecifics (trim q) \<longrightarrow> extractMovieTitles e q cid st = ([trim q], st)"
  by (simp add: extractMovieTitles_def)

text \<open>Witness of the amended C9: a title with a year, and a title with an actor.\<close>

theorem C9_bypass_returns_query_witness:
  "test directMovieWithSpecifics (trim ''  Dune 2021 '')
   \<and> extractMovieTitles quietEnv ''  Dune 2021 '' ''c1'' wonderWomanChain = ([''Dune 2021''], wonderWomanChain)
   \<and> test directMovieWithSpecifics (trim ''Ace with Vijay Sethupathi'')
   \<and> extractMovieTitles quietEnv ''Ace with Vijay Sethupathi'' ''c1'' wonderWomanChain
        = ([''Ace with Vijay Sethupathi''], wonderWomanChain)"
proof -
  have a: "test directMovieWithSpecifics (trim ''  Dune 2021 '')" by code_simp
  have b: "test directMovieWithSpecifics (trim ''Ace with Vijay Sethupathi'')" by code_simp
  have c: "trim ''  Dune 2021 '' = ''Dune 2021''" by code_simp
  have d: "trim ''Ace with Vijay Sethupathi'' = ''Ace with Vijay Sethupathi''" by code_simp
  from a b C9_bypass_returns_query [of "''  Dune 2021 ''" quietEnv "''c1''" wonderWomanChain]
    C9_bypass_returns_query [of "''Ace with Vijay Sethupathi''" quietEnv "''c1''" wonderWomanChain]
  show ?thesis by (simp add: c d)
qed

section \<open>Properties of the pipeline\<close>

lemma frame_refl: "guestFrame st st"
  by (simp add: guestFrame_def)

lemma frame_trans: "guestFrame a b \<Longrightarrow> guestFrame b c \<Longrightarrow> guestFrame a c"
  by (fastforce simp: guestFrame_def)

lemma frame_store: "guestFrame st (st\<lparr>conversationStore := s\<rparr>)"
  by (simp add: guestFrame_def)

lemma frame_addTokens: "guestFrame st (addTokens cid n st)"
  by (simp add: addTokens_def guestFrame_def split: option.splits)

lemma frame_saveConversation: "guestFrame st (saveConversationToDatabase e cid c u st)"
  by (simp add: saveConversationToDatabase_def guestFrame_def dbCall_def Let_def)

lemma frame_saveAssistant: "guestFrame st (saveAssistantMessage e cid msg md u st)"
proof (cases "conversationStore st cid")
  case None
  then show ?thesis by (simp add: saveAssistantMessage_def frame_refl)
next
  case (Some c)
  then show ?thesis
    by (simp add: saveAssistantMessage_def Let_def)
       (rule frame_trans [OF frame_store frame_saveConversation])
qed

lemma frame_load: "guestFrame st (loadConversation e cid st)"
  by (simp add: loadConversation_def guestFrame_def dbCall_def Let_def split: option.splits)

lemma frame_modelExtraction: "guestFrame st (snd (modelExtraction e q cid st))"
  by (simp add: modelExtraction_def frame_refl frame_addTokens split: llmResult.splits option.splits)

lemma frame_extract: "guestFrame st (snd (extractMovieTitles e q cid st))"
  by (simp add: extractMovieTitles_def frame_refl frame_modelExtraction split: option.splits)

lemma frame_generate: "guestFrame st (snd (generateRecommendation e m cid st))"
  by (simp add: generateRecommendation_def Let_def frame_refl frame_addTokens split: llmResult.splits)

lemma frame_selectRecommendation: "guestFrame st (snd (selectRecommendation e mid st))"
  by (simp add: selectRecommendation_def guestFrame_def dbCall_def Let_def)

text \<open>Without a user id the three guarded steps do nothing.\<close>

lemma searchDatabase_guest: "searchDatabase e titles None st = (None, st)"
  by (simp add: searchDatabase_def truthy_def)

lemma ensureUserMovie_guest: "ensureUserMovie e m None st = (m, st)"
  by (simp add: ensureUserMovie_def truthy_def)

lemma saveRecommendation_guest: "saveRecommendation e m r None st = st"
  by (simp add: saveRecommendation_def truthy_def)

lemma frame_existing_guest: "guestFrame st (snd (getExistingRecommendation e m None st))"
  by (simp add: getExistingRecommendation_def truthy_def frame_selectRecommendation)

lemma lookup_guest: "snd (lookupMovie e titles None st) = st"
  by (simp add: lookupMovie_def searchDatabase_guest split: option.splits)

lemma frame_general: "guestFrame st (snd (handleGeneralConversation e cx st))"
  by (auto simp: handleGeneralConversation_def Let_def frame_saveAssistant
        intro: frame_trans [OF frame_addTokens frame_saveAssistant] split: llmResult.splits)

lemma frame_recommend:
  assumes "cx_userId cx = None"
  shows "guestFrame st (snd (recommendMovie e cx movieData st))"
proof -
  let ?m = "normalizeMovieData e movieData"
  obtain ex st2 where ex: "getExistingRecommendation e ?m None st = (ex, st2)"
    by (cases "getExistingRecommendation e ?m None st")
  have f2: "guestFrame st st2" using frame_existing_guest [of st e ?m] ex by simp
  show ?thesis
  proof (cases ex)
    case (Some existing)
    then show ?thesis
      using assms ex f2
      by (simp add: recommendMovie_def Let_def ensureUserMovie_guest frame_trans [OF f2 frame_saveAssistant])
  next
    case None
    obtain r st3 where g: "generateRecommendation e ?m (cx_conversationId cx) st2 = (r, st3)"
      by (cases "generateRecommendation e ?m (cx_conversationId cx) st2")
    have f3: "guestFrame st2 st3" using frame_generate [of st2 e ?m "cx_conversationId cx"] g by simp
    have f: "guestFrame st st3" by (rule frame_trans [OF f2 f3])
    show ?thesis
      using assms ex None g
      by (simp add: recommendMovie_def Let_def ensureUserMovie_guest saveRecommendation_guest
            frame_trans [OF f frame_saveAssistant])
  qed
qed

lemma frame_movieQuery:
  assumes "cx_userId cx = None"
  shows "guestFrame st (snd (movieQuery e cx st))"
proof -
  obtain ts st1 where t: "extractMovieTitles e (cx_query cx) (cx_conversationId cx) st = (ts, st1)"
    by (cases "extractMovieTitles e (cx_query cx) (cx_conversationId cx) st")
  have f1: "guestFrame st st1" using frame_extract [of st e "cx_query cx" "cx_conversationId cx"] t by simp
  obtain found st2 where l: "lookupMovie e ts None st1 = (found, st2)" by (cases "lookupMovie e ts None st1")
  have s2: "st2 = st1" using lookup_guest [of e ts st1] l by simp
  have fr: "\<And>md. guestFrame st (snd (recommendMovie e cx md st1))"
    by (rule frame_trans [OF f1 frame_recommend [OF assms]])
  have fs: "\<And>msg. guestFrame st (saveAssistantMessage e (cx_conversationId cx) msg None None st1)"
    by (rule frame_trans [OF f1 frame_saveAssistant])
  show ?thesis
  proof (cases ts)
    case Nil
    then show ?thesis using assms t fs by (simp add: movieQuery_def Let_def)
  next
    case (Cons t0 rest)
    show ?thesis
    proof (cases "antiRepetition (cx_query cx) ts (conversationStore st1 (cx_conversationId cx))")
      case True
      then show ?thesis using assms t Cons fs by (simp add: movieQuery_def Let_def)
    next
      case False
      show ?thesis
      proof (cases found)
        case None
        then show ?thesis using assms t Cons False l s2 fs by (simp add: movieQuery_def Let_def)
      next
        case (Some md)
        then show ?thesis using assms t Cons False l s2 fr [of md] by (simp add: movieQuery_def Let_def)
      qed
    qed
  qed
qed

text \<open>
  Claim C10. A query processed without a user id leaves the movie table and the
  recommendation table as they were, on the movie path and on the conversational
  path: the requests it sends to the store go to the conversation table or read the
  recommendation table. The store search returns \<^verbatim>\<open>null\<close> with the state, and so its
  list of requests, unchanged; the step that inserts a movie row and the step that
  inserts a recommendation row do nothing.
\<close>

theorem C10_guest_leaves_tables_unchanged:
  "cx_userId cx = None \<longrightarrow>
     moviesTable (snd (processQuery e cx st)) = moviesTable st
     \<and> recommendationsTable (snd (processQuery e cx st)) = recommendationsTable st
     \<and> (\<exists>ops. dbCalls (snd (processQuery e cx st)) = dbCalls st @ ops
           \<and> set ops \<subseteq> {SelectConversation, UpsertConversation, SelectRecommendations})
     \<and> searchDatabase e titles (cx_userId cx) st = (None, st)
     \<and> ensureUserMovie e m (cx_userId cx) st = (m, st)
     \<and> saveRecommendation e m r (cx_userId cx) st = st"
proof
  assume g: "cx_userId cx = None"
  let ?st1 = "loadConversation e (cx_conversationId cx) st"
  let ?st2 = "?st1\<lparr>conversationStore :=
                  saveUserMessage (clock e) (cx_conversationId cx) (cx_query cx) (conversationStore ?st1)\<rparr>"
  have f2: "guestFrame st ?st2" by (rule frame_trans [OF frame_load frame_store])
  have "guestFrame st (snd (processQuery e cx st))"
    using frame_trans [OF f2 frame_general, of e cx] frame_trans [OF f2 frame_movieQuery [OF g], of e]
    by (simp add: processQuery_def Let_def)
  then show "moviesTable (snd (processQuery e cx st)) = moviesTable st
     \<and> recommendationsTable (snd (processQuery e cx st)) = recommendationsTable st
     \<and> (\<exists>ops. dbCalls (snd (processQuery e cx st)) = dbCalls st @ ops
           \<and> set ops \<subseteq> {SelectConversation, UpsertConversation, SelectRecommendations})
     \<and> searchDatabase e titles (cx_userId cx) st = (None, st)
     \<and> ensureUserMovie e m (cx_userId cx) st = (m, st)
     \<and> saveRecommendation e m r (cx_userId cx) st = st"
    using g by (simp add: guestFrame_def searchDatabase_guest ensureUserMovie_guest saveRecommendation_guest)
qed

text \<open>
  Witness of C10: the guest's query \<^verbatim>\<open>How was Heat\<close> on an empty store leaves both
  tables empty.
\<close>

theorem C10_guest_leaves_tables_unchanged_witness:
  "cx_userId guestContext = None
   \<and> moviesTable (snd (processQuery heatEnv guestContext emptyChain)) = []
   \<and> recommendationsTable (snd (processQuery heatEnv guestContext emptyChain)) = []"
proof -
  have h: "cx_userId guestContext = None" by (simp add: guestContext_def)
  have e: "moviesTable emptyChain = [] \<and> recommendationsTable emptyChain = []" by (simp add: emptyChain_def)
  from C10_guest_leaves_tables_unchanged [of guestContext heatEnv emptyChain] h e
  show ?thesis by simp
qed

text \<open>
  The same query takes the movie path and finds the movie. For the guest the store
  sees three requests, none of them on the movie table; for a signed-in user the
  movie row and the recommendation row are inserted.
\<close>

lemma guest_movie_path:
  "(let r = processQuery heatEnv guestContext emptyChain
    in (detectGeneralConversation (cx_query guestContext), map_option title (res_movie (fst r)),
        moviesTable (snd r), dbCalls (snd r)))
   = (False, Some ''Heat'', [], [SelectConversation, SelectRecommendations, UpsertConversation])"
  by code_simp

lemma user_movie_path:
  "(let r = processQuery heatEnv userContext emptyChain
    in (map m_user (moviesTable (snd r)), map r_worth_watching (recommendationsTable (snd r)), dbCalls (snd r)))
   = ([''u1''], [True],
      [SelectConversation, SelectMovies, SelectMovies, SelectMovies, SelectMovies, SelectMovies, InsertMovie,
       SelectMovies, SelectRecommendations, InsertRecommendation, UpsertConversation])"
  by code_simp

end
